theory Spec2Isabelle
  imports Main "HOL-Library.Word"
begin

section \<open>Carousel module (scripts.js, Carousel.init)\<close>

text \<open>
  The closure of \<open>Carousel.init\<close> holds the slide list \<open>items\<close>, the counter \<open>index\<close>
  and the flag \<open>isTransitioning\<close>. Everything \<open>update\<close> writes to the page is kept in
  the same record: the translation of the track, the two arrow buttons, the indicator
  dots and the \<open>aria-hidden\<close> attribute of every slide. The two layout measurements that
  \<open>update\<close> reads on each call are fields as well. JavaScript numbers are modelled by
  \<open>int\<close>: every number met here is an integer far below \<open>2^53\<close>.

  \<open>setTimeout\<close> is modelled by a clock \<open>now\<close> (in ms) and the due times of the pending
  unlock callbacks; \<open>advance d\<close> lets \<open>d\<close> ms pass and runs the callbacks that are due.
  The click and key listeners call \<open>goToNext\<close>, \<open>goToPrev\<close> and \<open>goToSlide\<close>; the resize
  listener and the second initial call only run \<open>update\<close> again.
\<close>

record button =
  disabled :: bool
  aria_disabled :: string

record dot =
  active :: bool
  aria_current :: string

record slide =
  aria_hidden :: "string option"

record carousel =
  items :: "slide list"
  index :: int
  isTransitioning :: bool
  offsetWidth :: int
  gapParsed :: "int option"
  translateX :: "int option"
  prev :: button
  "next" :: button
  dots :: "dot list"
  now :: nat
  unlock_due :: "nat list"

text \<open>\<open>String(b)\<close> for a boolean \<open>b\<close>.\<close>

definition String_bool :: "bool \<Rightarrow> string" where
  "String_bool b = (if b then ''true'' else ''false'')"

text \<open>\<open>parseInt(getComputedStyle(track).gap) || 16\<close>: \<open>None\<close> is \<open>NaN\<close>; \<open>NaN\<close> and \<open>0\<close> are
  falsy, so both give 16.\<close>

definition gap :: "carousel \<Rightarrow> int" where
  "gap c = (case gapParsed c of None \<Rightarrow> 16 | Some g \<Rightarrow> if g = 0 then 16 else g)"

definition updateButtons :: "carousel \<Rightarrow> carousel" where
  "updateButtons c =
     c\<lparr>prev := \<lparr>disabled = (index c = 0), aria_disabled = String_bool (index c = 0)\<rparr>,
       next := \<lparr>disabled = (index c = int (length (items c)) - 1),
                aria_disabled = String_bool (index c = int (length (items c)) - 1)\<rparr>\<rparr>"

definition updateDots :: "carousel \<Rightarrow> carousel" where
  "updateDots c =
     c\<lparr>dots := map (\<lambda>i. \<lparr>active = (int i = index c),
                           aria_current = (if int i = index c then ''true'' else ''false'')\<rparr>)
                    [0..<length (dots c)]\<rparr>"

definition update :: "carousel \<Rightarrow> carousel" where
  "update c =
     (if length (items c) = 0 then c
      else
        let itemWidth = offsetWidth c;
            width = itemWidth + gap c;
            c1 = c\<lparr>translateX := Some (- index c * width)\<rparr>;
            c2 = updateButtons c1;
            c3 = updateDots c2
        in c3\<lparr>items := map (\<lambda>i. \<lparr>aria_hidden =
                               Some (if int i \<noteq> index c3 then ''true'' else ''false'')\<rparr>)
                          [0..<length (items c3)]\<rparr>)"

definition goToNext :: "carousel \<Rightarrow> carousel" where
  "goToNext c =
     (if isTransitioning c \<or> index c \<ge> int (length (items c)) - 1 then c
      else
        let c1 = c\<lparr>isTransitioning := True\<rparr>;
            c2 = c1\<lparr>index := index c1 + 1\<rparr>;
            c3 = update c2
        in c3\<lparr>unlock_due := unlock_due c3 @ [now c3 + 400]\<rparr>)"

definition goToPrev :: "carousel \<Rightarrow> carousel" where
  "goToPrev c =
     (if isTransitioning c \<or> index c \<le> 0 then c
      else
        let c1 = c\<lparr>isTransitioning := True\<rparr>;
            c2 = c1\<lparr>index := index c1 - 1\<rparr>;
            c3 = update c2
        in c3\<lparr>unlock_due := unlock_due c3 @ [now c3 + 400]\<rparr>)"

definition goToSlide :: "int \<Rightarrow> carousel \<Rightarrow> carousel" where
  "goToSlide i c =
     (if isTransitioning c \<or> i = index c \<or> i < 0 \<or> i \<ge> int (length (items c)) then c
      else
        let c1 = c\<lparr>isTransitioning := True\<rparr>;
            c2 = c1\<lparr>index := i\<rparr>;
            c3 = update c2
        in c3\<lparr>unlock_due := unlock_due c3 @ [now c3 + 400]\<rparr>)"

text \<open>Time passes: the clock moves on by \<open>d\<close> ms and every unlock callback that is due
  runs (\<open>isTransitioning = false\<close>) and leaves the queue.\<close>

definition advance :: "nat \<Rightarrow> carousel \<Rightarrow> carousel" where
  "advance d c =
     (let t = now c + d;
          due = filter (\<lambda>u. u \<le> t) (unlock_due c)
      in c\<lparr>now := t,
           unlock_due := filter (\<lambda>u. \<not> u \<le> t) (unlock_due c),
           isTransitioning := (if due = [] then isTransitioning c else False)\<rparr>)"

text \<open>What \<open>init\<close> looks up in the document: the track with its children, the two arrows
  and the dots container, each of which may be missing, and the layout of the moment.\<close>

record carousel_dom =
  track_children :: "nat option"
  has_prev :: bool
  has_next :: bool
  has_dotsContainer :: bool
  dom_offsetWidth :: int
  dom_gapParsed :: "int option"

text \<open>The closure variables as \<open>init\<close> creates them for \<open>n\<close> slides, with one dot per
  slide when the dots container exists, before the first \<open>update()\<close>.\<close>

definition created :: "nat \<Rightarrow> carousel_dom \<Rightarrow> carousel" where
  "created n d =
     \<lparr>items = replicate n \<lparr>aria_hidden = None\<rparr>,
      index = 0,
      isTransitioning = False,
      offsetWidth = dom_offsetWidth d,
      gapParsed = dom_gapParsed d,
      translateX = None,
      prev = \<lparr>disabled = False, aria_disabled = ''''\<rparr>,
      next = \<lparr>disabled = False, aria_disabled = ''''\<rparr>,
      dots = (if has_dotsContainer d
              then map (\<lambda>i. \<lparr>active = (i = 0), aria_current = ''''\<rparr>) [0..<n]
              else []),
      now = 0,
      unlock_due = []\<rparr>"

text \<open>\<open>None\<close> is the silent return of \<open>init\<close>: nothing is installed.\<close>

definition Carousel_init :: "carousel_dom \<Rightarrow> carousel option" where
  "Carousel_init d =
     (case track_children d of
        None \<Rightarrow> None
      | Some n \<Rightarrow>
          if \<not> has_prev d \<or> \<not> has_next d then None
          else if n = 0 then None
          else Some (update (created n d)))"

text \<open>The inputs of the carousel: the three operations, and time passing.\<close>

datatype input = Next | Prev | Slide int | Wait nat

fun step :: "input \<Rightarrow> carousel \<Rightarrow> carousel" where
  "step Next c = goToNext c"
| "step Prev c = goToPrev c"
| "step (Slide i) c = goToSlide i c"
| "step (Wait d) c = advance d c"

text \<open>The states the carousel passes through, one after each input.\<close>

fun trace :: "carousel \<Rightarrow> input list \<Rightarrow> carousel list" where
  "trace c [] = []"
| "trace c (e # es) = step e c # trace (step e c) es"

definition in_bounds :: "carousel \<Rightarrow> bool" where
  "in_bounds c \<longleftrightarrow> 0 \<le> index c \<and> index c < int (length (items c))"

text \<open>A page with three testimonials, and its carousel after \<open>init\<close>.\<close>

definition three_slides :: carousel_dom where
  "three_slides = \<lparr>track_children = Some 3, has_prev = True, has_next = True,
                    has_dotsContainer = True, dom_offsetWidth = 300, dom_gapParsed = Some 24\<rparr>"

definition carousel3 :: carousel where
  "carousel3 = update (created 3 three_slides)"


section \<open>JavaScript strings\<close>

text \<open>
  A JavaScript string is a sequence of UTF-16 code units. \<open>js\<close> embeds an ASCII literal of
  the source. \<open>String.prototype.trim\<close> removes the code points of WhiteSpace and
  LineTerminator (ECMA-262) from both ends; \<open>\s\<close> in a regular expression is the same set.
\<close>

type_synonym jschar = "16 word"
type_synonym jsstring = "jschar list"

definition js :: "string \<Rightarrow> jsstring" where
  "js s = map of_char s"

definition isWhiteSpace :: "jschar \<Rightarrow> bool" where
  "isWhiteSpace c \<longleftrightarrow>
     c \<in> set [0x0009, 0x000A, 0x000B, 0x000C, 0x000D, 0x0020, 0x00A0, 0x1680,
               0x2028, 0x2029, 0x202F, 0x205F, 0x3000, 0xFEFF]
     \<or> (0x2000 \<le> c \<and> c \<le> 0x200A)"

definition trim :: "jsstring \<Rightarrow> jsstring" where
  "trim s = rev (dropWhile isWhiteSpace (rev (dropWhile isWhiteSpace s)))"

text \<open>A value that may be \<open>undefined\<close> is an option. A string is truthy when it is defined
  and not empty; \<open>message || ''\<close> is \<open>or_empty message\<close>.\<close>

definition truthy :: "jsstring option \<Rightarrow> bool" where
  "truthy m = (case m of None \<Rightarrow> False | Some s \<Rightarrow> s \<noteq> [])"

definition or_empty :: "jsstring option \<Rightarrow> jsstring" where
  "or_empty m = (case m of None \<Rightarrow> [] | Some s \<Rightarrow> s)"

subsection \<open>The regular expressions of the rule sets\<close>

text \<open>
  The patterns of the source are anchored at both ends (\<open>^...$\<close>, no flags) and are
  sequences of character classes, each taken once or with \<open>+\<close>. \<open>matches r s\<close> is
  \<open>r.test(s)\<close> for such a pattern: some way of splitting the whole of \<open>s\<close> among the terms.
\<close>

datatype cclass = Lit jschar | WhiteSpace

fun in_cclass :: "cclass \<Rightarrow> jschar \<Rightarrow> bool" where
  "in_cclass (Lit a) c = (c = a)"
| "in_cclass WhiteSpace c = isWhiteSpace c"

datatype atom = OneOf "cclass list" | NoneOf "cclass list"

fun atom_matches :: "atom \<Rightarrow> jschar \<Rightarrow> bool" where
  "atom_matches (OneOf ks) c = (\<exists>k \<in> set ks. in_cclass k c)"
| "atom_matches (NoneOf ks) c = (\<not> (\<exists>k \<in> set ks. in_cclass k c))"

datatype quantifier = Once | Plus

type_synonym regex = "(atom \<times> quantifier) list"

fun matches :: "regex \<Rightarrow> jsstring \<Rightarrow> bool" where
  "matches [] s = (s = [])"
| "matches ((a, q) # ts) [] = False"
| "matches ((a, Once) # ts) (c # cs) = (atom_matches a c \<and> matches ts cs)"
| "matches ((a, Plus) # ts) (c # cs) =
     (atom_matches a c \<and> (matches ((a, Plus) # ts) cs \<or> matches ts cs))"

text \<open>\<open>/^[^\s@]+@[^\s@]+\.[^\s@]+$/\<close>\<close>

definition email_pattern :: regex where
  "email_pattern =
     [(NoneOf [WhiteSpace, Lit 0x40], Plus), (OneOf [Lit 0x40], Once),
      (NoneOf [WhiteSpace, Lit 0x40], Plus), (OneOf [Lit 0x2E], Once),
      (NoneOf [WhiteSpace, Lit 0x40], Plus)]"

section \<open>Form validation module (FormValidation)\<close>

subsection \<open>Fields, rules, \<open>showError\<close> and \<open>validateField\<close>\<close>

text \<open>
  A form control with what the module reads and writes: its \<open>value\<close>, for a select the text
  of the selected option (\<open>None\<close> when \<open>options[selectedIndex]\<close> is undefined), the
  \<open>aria-invalid\<close> attribute, the class \<open>error-field\<close>, and the element with id
  \<open>'error-' + field.id\<close> when the document has one.
\<close>

record error_element =
  textContent :: jsstring
  role :: string

record field =
  fid :: string
  fvalue :: jsstring
  selectedText :: "jsstring option"
  aria_invalid :: "string option"
  error_field :: bool
  errorElement :: "error_element option"

record rules =
  required :: "jsstring option"
  pattern :: "regex option"
  patternError :: "jsstring option"
  minLength :: "int option"
  minLengthError :: "jsstring option"

definition showError :: "field \<Rightarrow> jsstring option \<Rightarrow> field" where
  "showError field message =
     (let field1 = field\<lparr>errorElement :=
            (case errorElement field of
               None \<Rightarrow> None
             | Some e \<Rightarrow> Some (e\<lparr>textContent := or_empty message,
                                role := (if truthy message then ''alert'' else [])\<rparr>))\<rparr>
      in if truthy message
         then field1\<lparr>aria_invalid := Some ''true'', error_field := True\<rparr>
         else field1\<lparr>aria_invalid := None, error_field := False\<rparr>)"

text \<open>The result is the returned boolean and the field as \<open>showError\<close> left it.
  \<open>rules.minLength\<close> is truthy when it is defined and not 0.\<close>

definition validateField :: "field \<Rightarrow> rules \<Rightarrow> bool \<times> field" where
  "validateField field rules =
     (let v = trim (fvalue field) in
      if truthy (required rules) \<and> v = [] then (False, showError field (required rules))
      else if v \<noteq> [] \<and> (case pattern rules of None \<Rightarrow> False | Some p \<Rightarrow> \<not> matches p v)
        then (False, showError field (patternError rules))
      else if v \<noteq> [] \<and> (case minLength rules of None \<Rightarrow> False
                           | Some n \<Rightarrow> n \<noteq> 0 \<and> int (length v) < n)
        then (False, showError field (minLengthError rules))
      else (True, showError field (Some [])))"

text \<open>The three checks in the words of the specification, on the trimmed value \<open>v\<close>: a rule
  fails when it is present in the rule set and \<open>v\<close> does not meet it; the pattern and the
  minimum length are for values that are not empty.\<close>

definition fails_required :: "rules \<Rightarrow> jsstring \<Rightarrow> bool" where
  "fails_required ru v \<longleftrightarrow> truthy (required ru) \<and> v = []"

definition fails_pattern :: "rules \<Rightarrow> jsstring \<Rightarrow> bool" where
  "fails_pattern ru v \<longleftrightarrow>
     v \<noteq> [] \<and> (case pattern ru of None \<Rightarrow> False | Some p \<Rightarrow> \<not> matches p v)"

definition fails_minLength :: "rules \<Rightarrow> jsstring \<Rightarrow> bool" where
  "fails_minLength ru v \<longleftrightarrow>
     v \<noteq> [] \<and> (case minLength ru of None \<Rightarrow> False | Some n \<Rightarrow> n \<noteq> 0 \<and> int (length v) < n)"

text \<open>The message a field shows: the text of its error element.\<close>

definition shown :: "field \<Rightarrow> jsstring option" where
  "shown f = map_option textContent (errorElement f)"

subsection \<open>\<open>encodeURIComponent\<close> and \<open>decodeURIComponent\<close>\<close>

text \<open>
  The two built-in functions as ECMA-262 defines them (Encode and Decode). Encoding keeps
  the unreserved characters (letters, digits and \<open>- _ . ! ~ * ' ( )\<close>) and writes every other
  code point as the \<open>%XX\<close> escapes of its UTF-8 octets; a surrogate without its partner
  throws a \<open>URIError\<close>, which is \<open>None\<close> here. Decoding reads the escapes back and throws
  on a malformed escape or on octets that are not the UTF-8 form of a code point.
\<close>

definition uriUnescaped :: "jschar \<Rightarrow> bool" where
  "uriUnescaped c \<longleftrightarrow>
     (0x41 \<le> c \<and> c \<le> 0x5A) \<or> (0x61 \<le> c \<and> c \<le> 0x7A) \<or> (0x30 \<le> c \<and> c \<le> 0x39)
     \<or> c \<in> set [0x2D, 0x5F, 0x2E, 0x21, 0x7E, 0x2A, 0x27, 0x28, 0x29]"

definition isLeadSurrogate :: "jschar \<Rightarrow> bool" where
  "isLeadSurrogate c \<longleftrightarrow> 0xD800 \<le> c \<and> c \<le> 0xDBFF"

definition isTrailSurrogate :: "jschar \<Rightarrow> bool" where
  "isTrailSurrogate c \<longleftrightarrow> 0xDC00 \<le> c \<and> c \<le> 0xDFFF"

definition pairCodePoint :: "jschar \<Rightarrow> jschar \<Rightarrow> nat" where
  "pairCodePoint hi lo = (unat hi - 0xD800) * 0x400 + (unat lo - 0xDC00) + 0x10000"

definition utf8 :: "nat \<Rightarrow> nat list" where
  "utf8 cp =
     (if cp < 0x80 then [cp]
      else if cp < 0x800 then [0xC0 + cp div 0x40, 0x80 + cp mod 0x40]
      else if cp < 0x10000 then
        [0xE0 + cp div 0x1000, 0x80 + cp div 0x40 mod 0x40, 0x80 + cp mod 0x40]
      else [0xF0 + cp div 0x40000, 0x80 + cp div 0x1000 mod 0x40,
            0x80 + cp div 0x40 mod 0x40, 0x80 + cp mod 0x40])"

definition hexDigit :: "nat \<Rightarrow> jschar" where
  "hexDigit d = (if d < 10 then of_nat (0x30 + d) else of_nat (0x41 + (d - 10)))"

definition escape :: "nat list \<Rightarrow> jsstring" where
  "escape octets = concat (map (\<lambda>b. [0x25, hexDigit (b div 16), hexDigit (b mod 16)]) octets)"

fun encodeURIComponent :: "jsstring \<Rightarrow> jsstring option" where
  "encodeURIComponent [] = Some []"
| "encodeURIComponent (c # cs) =
     (if uriUnescaped c then map_option ((#) c) (encodeURIComponent cs)
      else if isLeadSurrogate c then
        (case cs of
           [] \<Rightarrow> None
         | d # ds \<Rightarrow>
             if isTrailSurrogate d
             then map_option ((@) (escape (utf8 (pairCodePoint c d)))) (encodeURIComponent ds)
             else None)
      else if isTrailSurrogate c then None
      else map_option ((@) (escape (utf8 (unat c)))) (encodeURIComponent cs))"

definition hexValue :: "jschar \<Rightarrow> nat option" where
  "hexValue c =
     (if 0x30 \<le> c \<and> c \<le> 0x39 then Some (unat c - 0x30)
      else if 0x41 \<le> c \<and> c \<le> 0x46 then Some (unat c - 0x41 + 10)
      else if 0x61 \<le> c \<and> c \<le> 0x66 then Some (unat c - 0x61 + 10)
      else None)"

text \<open>Decoding in two passes: first the escapes become octets, then the octets that are
  not ASCII are read as UTF-8. An octet comes from an escape only, so a multi-byte
  sequence is made of escapes alone, as Decode demands.\<close>

datatype token = Unit jschar | Octet nat

fun unescape :: "jsstring \<Rightarrow> token list option" where
  "unescape [] = Some []"
| "unescape (c # cs) =
     (if c \<noteq> 0x25 then map_option ((#) (Unit c)) (unescape cs)
      else
        (case cs of
           h # l # rest \<Rightarrow>
             (case (hexValue h, hexValue l) of
                (Some a, Some b) \<Rightarrow> map_option ((#) (Octet (a * 16 + b))) (unescape rest)
              | _ \<Rightarrow> None)
         | _ \<Rightarrow> None))"

definition continuation :: "nat \<Rightarrow> bool" where
  "continuation b \<longleftrightarrow> 0x80 \<le> b \<and> b < 0xC0"

definition utf16 :: "nat \<Rightarrow> jsstring" where
  "utf16 cp =
     (if cp < 0x10000 then [of_nat cp]
      else [of_nat (0xD800 + (cp - 0x10000) div 0x400),
            of_nat (0xDC00 + (cp - 0x10000) mod 0x400)])"

fun decode_utf8 :: "token list \<Rightarrow> jsstring option" where
  "decode_utf8 [] = Some []"
| "decode_utf8 (Unit c # ts) = map_option ((#) c) (decode_utf8 ts)"
| "decode_utf8 (Octet b # ts) =
     (if b < 0x80 then map_option ((#) (of_nat b)) (decode_utf8 ts)
      else if 0xC0 \<le> b \<and> b < 0xE0 then
        (case ts of
           Octet b1 # ts1 \<Rightarrow>
             (let cp = (b - 0xC0) * 0x40 + (b1 - 0x80) in
              if continuation b1 \<and> 0x80 \<le> cp
              then map_option ((@) (utf16 cp)) (decode_utf8 ts1) else None)
         | _ \<Rightarrow> None)
      else if 0xE0 \<le> b \<and> b < 0xF0 then
        (case ts of
           Octet b1 # Octet b2 # ts2 \<Rightarrow>
             (let cp = (b - 0xE0) * 0x1000 + (b1 - 0x80) * 0x40 + (b2 - 0x80) in
              if continuation b1 \<and> continuation b2 \<and> 0x800 \<le> cp
                 \<and> \<not> (0xD800 \<le> cp \<and> cp \<le> 0xDFFF)
              then map_option ((@) (utf16 cp)) (decode_utf8 ts2) else None)
         | _ \<Rightarrow> None)
      else if 0xF0 \<le> b \<and> b < 0xF8 then
        (case ts of
           Octet b1 # Octet b2 # Octet b3 # ts3 \<Rightarrow>
             (let cp = (b - 0xF0) * 0x40000 + (b1 - 0x80) * 0x1000 + (b2 - 0x80) * 0x40
                       + (b3 - 0x80) in
              if continuation b1 \<and> continuation b2 \<and> continuation b3
                 \<and> 0x10000 \<le> cp \<and> cp \<le> 0x10FFFF
              then map_option ((@) (utf16 cp)) (decode_utf8 ts3) else None)
         | _ \<Rightarrow> None)
      else None)"

definition decodeURIComponent :: "jsstring \<Rightarrow> jsstring option" where
  "decodeURIComponent s = (case unescape s of None \<Rightarrow> None | Some ts \<Rightarrow> decode_utf8 ts)"

text \<open>\<open>s.replace(/\n/g, '<br>')\<close>\<close>

definition replace_newlines :: "jsstring \<Rightarrow> jsstring" where
  "replace_newlines s = concat (map (\<lambda>c. if c = 0x0A then js ''<br>'' else [c]) s)"

subsection \<open>The fallback panel and its copy button (\<open>createFallbackUI\<close>)\<close>

text \<open>
  The panel that \<open>createFallbackUI\<close> appends to the form: the three links, the markup
  written into the copy box, the label of the copy button, and what the click handler of
  that button changes. The handler and its timers belong to this panel alone, so the
  panel has its own clock and its own queue of pending label resets.
\<close>

datatype js_error = TypeError | URIError

record fallback =
  mailtoUrl :: jsstring
  gmailUrl :: jsstring
  yahooUrl :: jsstring
  copyBox_innerHTML :: jsstring
  copyBtn_textContent :: jsstring
  copyBox_focused :: bool
  selectAll_done :: bool
  clipboard :: "jsstring option"
  console_error :: "(jsstring \<times> jsstring) list"
  panel_clock :: nat
  reset_due :: "(nat \<times> jsstring) list"

definition createFallbackUI :: "jsstring \<Rightarrow> jsstring \<Rightarrow> jsstring \<Rightarrow> js_error + fallback" where
  "createFallbackUI recipient subject body =
     (let gmail = js ''https://mail.google.com/mail/?view=cm&fs=1&to='' @ recipient
                  @ js ''&su='' @ subject @ js ''&body='' @ body;
          yahoo = js ''http://compose.mail.yahoo.com/?to='' @ recipient
                  @ js ''&subject='' @ subject @ js ''&body='' @ body;
          mailto = js ''mailto:'' @ recipient @ js ''?subject='' @ subject
                   @ js ''&body='' @ body
      in case decodeURIComponent body of
           None \<Rightarrow> Inl URIError
         | Some text \<Rightarrow>
             Inr \<lparr>mailtoUrl = mailto, gmailUrl = gmail, yahooUrl = yahoo,
                  copyBox_innerHTML = replace_newlines text,
                  copyBtn_textContent = js ''Copy to Clipboard'',
                  copyBox_focused = False, selectAll_done = False, clipboard = None,
                  console_error = [], panel_clock = 0, reset_due = []\<rparr>)"

text \<open>
  A click on the copy button. \<open>text\<close> is \<open>copyBox.innerText\<close> as the browser renders it;
  the outcome of \<open>navigator.clipboard.writeText\<close> is an input: the promise is fulfilled,
  or rejected with an error, or \<open>navigator.clipboard\<close> is undefined and the call throws.
\<close>

datatype clipboard_outcome = Fulfilled | Rejected jsstring | Unavailable

definition copy_click :: "jsstring \<Rightarrow> clipboard_outcome \<Rightarrow> fallback \<Rightarrow> js_error + fallback" where
  "copy_click text outcome p =
     (case outcome of
        Unavailable \<Rightarrow> Inl TypeError
      | Fulfilled \<Rightarrow>
          (let p1 = p\<lparr>clipboard := Some text\<rparr>;
               originalText = copyBtn_textContent p1;
               p2 = p1\<lparr>copyBtn_textContent := js ''Copied!''\<rparr>
           in Inr (p2\<lparr>reset_due := reset_due p2 @ [(panel_clock p2 + 2000, originalText)]\<rparr>))
      | Rejected err \<Rightarrow>
          Inr (p\<lparr>console_error := console_error p @ [(js ''Failed to copy: '', err)],
                 copyBox_focused := True,
                 selectAll_done := True\<rparr>))"

text \<open>The label after the pending resets that are due at time \<open>t\<close> have run, oldest first.\<close>

fun run_resets :: "nat \<Rightarrow> (nat \<times> jsstring) list \<Rightarrow> jsstring \<Rightarrow> jsstring" where
  "run_resets t [] label = label"
| "run_resets t ((due, original) # rest) label =
     run_resets t rest (if due \<le> t then original else label)"

definition panel_advance :: "nat \<Rightarrow> fallback \<Rightarrow> fallback" where
  "panel_advance d p =
     (let t = panel_clock p + d
      in p\<lparr>panel_clock := t,
           copyBtn_textContent := run_resets t (reset_due p) (copyBtn_textContent p),
           reset_due := filter (\<lambda>(due, original). \<not> due \<le> t) (reset_due p)\<rparr>)"

subsection \<open>The submit handlers\<close>

text \<open>
  The state of one form: the controls its handler holds (one for every reference of type
  \<open>'r\<close>), the order in which these controls stand inside the form element, the submit
  button, the element with focus, the success message, the fallback panel, the last URL
  assigned to \<open>window.location.href\<close>, and the processing callbacks \<open>setTimeout\<close> has
  pending, each with the button text it captured. The pages themselves are not part of
  the sources, so the document order is an input.

  The handlers are those of the variant with the fallback panel (800 ms, "Processing...").
\<close>

datatype 'r target = Field 'r | SuccessMessage

record submit_button =
  btn_disabled :: bool
  btn_textContent :: jsstring

record 'r form =
  controls :: "'r \<Rightarrow> field"
  doc_order :: "'r list"
  submitBtn :: submit_button
  focus :: "'r target option"
  success_hidden :: bool
  success_textContent :: jsstring
  email_fallback :: "fallback option"
  location_href :: "jsstring option"
  clock :: nat
  processing_due :: "(nat \<times> jsstring) list"

text \<open>\<open>validateField(x, rules.x)\<close> on the control behind the reference \<open>r\<close>.\<close>

definition validate_ref ::
  "'r \<Rightarrow> rules \<Rightarrow> ('r, 'z) form_scheme \<Rightarrow> bool \<times> ('r, 'z) form_scheme" where
  "validate_ref r ru f =
     (let (ok, fld) = validateField (controls f r) ru
      in (ok, f\<lparr>controls := (controls f)(r := fld)\<rparr>))"

text \<open>The statements \<open>isValid = validateField(x, rules.x) && isValid\<close>, one per field and
  in the order of the list: the call is the left operand, so it is always made.\<close>

fun validate_all ::
  "('r \<times> rules) list \<Rightarrow> bool \<Rightarrow> ('r, 'z) form_scheme \<Rightarrow> bool \<times> ('r, 'z) form_scheme" where
  "validate_all [] isValid f = (isValid, f)"
| "validate_all ((r, ru) # rest) isValid f =
     (let (ok, f1) = validate_ref r ru f
      in validate_all rest (ok \<and> isValid) f1)"

text \<open>\<open>form.querySelector('[aria-invalid="true"]')\<close>: the first control of the form, in
  document order, that carries the attribute.\<close>

definition querySelector_invalid :: "('r, 'z) form_scheme \<Rightarrow> 'r option" where
  "querySelector_invalid f =
     find (\<lambda>r. aria_invalid (controls f r) = Some ''true'') (doc_order f)"

definition submit :: "('r \<times> rules) list \<Rightarrow> ('r, 'z) form_scheme \<Rightarrow> ('r, 'z) form_scheme" where
  "submit rs f =
     (let (isValid, f1) = validate_all rs True f in
      if \<not> isValid then
        (case querySelector_invalid f1 of
           None \<Rightarrow> f1
         | Some firstError \<Rightarrow> f1\<lparr>focus := Some (Field firstError)\<rparr>)
      else
        (let originalBtnText = btn_textContent (submitBtn f1);
             f2 = f1\<lparr>submitBtn := \<lparr>btn_disabled = True, btn_textContent = js ''Processing...''\<rparr>\<rparr>
         in f2\<lparr>processing_due := processing_due f2 @ [(clock f2 + 800, originalBtnText)]\<rparr>))"

subsection \<open>The contact form (\<open>initContactForm\<close>)\<close>

datatype contact_ref = CName | CEmail | CMessage

text \<open>The object \<open>rules\<close> of \<open>initContactForm\<close>, and the fields in the order in which the
  submit handler validates them.\<close>

definition contact_rule :: "contact_ref \<Rightarrow> rules" where
  "contact_rule r =
     (case r of
        CName \<Rightarrow> \<lparr>required = Some (js ''Please enter your name''), pattern = None,
                   patternError = None, minLength = None, minLengthError = None\<rparr>
      | CEmail \<Rightarrow> \<lparr>required = Some (js ''Please enter your email''),
                    pattern = Some email_pattern,
                    patternError = Some (js ''Please enter a valid email address''),
                    minLength = None, minLengthError = None\<rparr>
      | CMessage \<Rightarrow> \<lparr>required = Some (js ''Please enter a message''), pattern = None,
                      patternError = None, minLength = Some 10,
                      minLengthError = Some (js ''Message must be at least 10 characters'')\<rparr>)"

definition contact_rules :: "(contact_ref \<times> rules) list" where
  "contact_rules =
     [(CName, contact_rule CName), (CEmail, contact_rule CEmail),
      (CMessage, contact_rule CMessage)]"

definition contact_submit :: "contact_ref form \<Rightarrow> contact_ref form" where
  "contact_submit f = submit contact_rules f"

definition contact_body_text :: "jsstring \<Rightarrow> jsstring \<Rightarrow> jsstring \<Rightarrow> jsstring" where
  "contact_body_text name email message =
     js ''Name: '' @ name @ [0x0A] @ js ''Email: '' @ email @ [0x0A, 0x0A]
     @ js ''Message:'' @ [0x0A] @ message"

text \<open>The callback that the handler passes to \<open>setTimeout\<close>. An exception ends it; nothing
  has been written to the page at the points where one can be thrown.\<close>

definition contact_process :: "jsstring \<Rightarrow> contact_ref form \<Rightarrow> js_error + contact_ref form" where
  "contact_process originalBtnText f =
     (let recipient = js ''reshineinternational@gmail.com'' in
      case encodeURIComponent (js ''Contact Form Submission: '' @ fvalue (controls f CName)) of
        None \<Rightarrow> Inl URIError
      | Some subject \<Rightarrow>
         (case encodeURIComponent
                 (contact_body_text (fvalue (controls f CName)) (fvalue (controls f CEmail))
                    (fvalue (controls f CMessage))) of
            None \<Rightarrow> Inl URIError
          | Some body \<Rightarrow>
             (let f1 = f\<lparr>location_href := Some (js ''mailto:'' @ recipient @ js ''?subject=''
                                                  @ subject @ js ''&body='' @ body)\<rparr>;
                  f2 = f1\<lparr>submitBtn := (submitBtn f1)\<lparr>btn_textContent := js ''Opening Email...''\<rparr>,
                          success_hidden := False,
                          success_textContent :=
                            js ''Opening your email client... Please click Send in the new window.'',
                          focus := Some SuccessMessage\<rparr>
              in case createFallbackUI recipient subject body of
                   Inl e \<Rightarrow> Inl e
                 | Inr panel \<Rightarrow>
                     Inr (f2\<lparr>email_fallback := Some panel,
                             submitBtn := \<lparr>btn_disabled = False,
                                           btn_textContent = originalBtnText\<rparr>\<rparr>))))"

text \<open>What \<open>initContactForm\<close> looks up; \<open>None\<close> is an element the document does not have.\<close>

record contact_page =
  has_contact_form :: bool
  page_name :: "field option"
  page_email :: "field option"
  page_message :: "field option"
  page_submitBtn :: "submit_button option"
  page_success :: "(bool \<times> jsstring) option"
  page_order :: "contact_ref list"

text \<open>\<open>None\<close> is the silent return; \<open>Some f\<close> is the form with its listeners installed.\<close>

definition initContactForm :: "contact_page \<Rightarrow> contact_ref form option" where
  "initContactForm p =
     (if \<not> has_contact_form p then None
      else
        (case (page_name p, page_email p, page_message p, page_submitBtn p, page_success p) of
           (Some name, Some email, Some message, Some btn, Some (hidden, text)) \<Rightarrow>
             Some \<lparr>controls = (\<lambda>r. case r of CName \<Rightarrow> name | CEmail \<Rightarrow> email
                                         | CMessage \<Rightarrow> message),
                   doc_order = page_order p, submitBtn = btn, focus = None,
                   success_hidden = hidden, success_textContent = text,
                   email_fallback = None, location_href = None, clock = 0,
                   processing_due = []\<rparr>
         | _ \<Rightarrow> None))"

subsection \<open>The quote form (\<open>initQuickQuoteForm\<close>)\<close>

datatype quote_ref = QType | QPort | QName | QPhone | QEmail

text \<open>The handler also holds \<open>details\<close>, which \<open>init\<close> does not test: it may be \<open>null\<close>.\<close>

record quote_form = "quote_ref form" +
  details :: "field option"

definition quote_rule :: "quote_ref \<Rightarrow> rules" where
  "quote_rule r =
     (case r of
        QType \<Rightarrow> \<lparr>required = Some (js ''Please select a service type''), pattern = None,
                   patternError = None, minLength = None, minLengthError = None\<rparr>
      | QPort \<Rightarrow> \<lparr>required = Some (js ''Please select a port/location''), pattern = None,
                   patternError = None, minLength = None, minLengthError = None\<rparr>
      | QName \<Rightarrow> \<lparr>required = Some (js ''Please enter your name''), pattern = None,
                   patternError = None, minLength = None, minLengthError = None\<rparr>
      | QPhone \<Rightarrow> \<lparr>required = Some (js ''Please enter your phone number''), pattern = None,
                    patternError = None, minLength = None, minLengthError = None\<rparr>
      | QEmail \<Rightarrow> \<lparr>required = Some (js ''Please enter your email''),
                    pattern = Some email_pattern,
                    patternError = Some (js ''Please enter a valid email address''),
                    minLength = None, minLengthError = None\<rparr>)"

definition quote_rules :: "(quote_ref \<times> rules) list" where
  "quote_rules =
     [(QType, quote_rule QType), (QPort, quote_rule QPort), (QName, quote_rule QName),
      (QPhone, quote_rule QPhone), (QEmail, quote_rule QEmail)]"

definition quote_submit :: "quote_form \<Rightarrow> quote_form" where
  "quote_submit f = submit quote_rules f"

text \<open>The template literal of the body; \<open>details.value || 'N/A'\<close> is the last line.\<close>

definition quote_body_text ::
  "jsstring \<Rightarrow> jsstring \<Rightarrow> jsstring \<Rightarrow> jsstring \<Rightarrow> jsstring \<Rightarrow> jsstring \<Rightarrow> jsstring" where
  "quote_body_text typeText portText name phone email detailsValue =
     js ''Service Type: '' @ typeText @ [0x0A]
     @ js ''Port/Location: '' @ portText @ [0x0A, 0x0A]
     @ js ''Name: '' @ name @ [0x0A]
     @ js ''Phone: '' @ phone @ [0x0A]
     @ js ''Email: '' @ email @ [0x0A, 0x0A]
     @ js ''Additional Details:'' @ [0x0A]
     @ (if detailsValue = [] then js ''N/A'' else detailsValue)"

definition quote_process :: "jsstring \<Rightarrow> quote_form \<Rightarrow> js_error + quote_form" where
  "quote_process originalBtnText f =
     (let recipient = js ''reshineinternational@gmail.com'' in
      case selectedText (controls f QType) of
        None \<Rightarrow> Inl TypeError
      | Some typeText \<Rightarrow>
         (case encodeURIComponent (js ''Quote Request: '' @ typeText) of
            None \<Rightarrow> Inl URIError
          | Some subject \<Rightarrow>
             (case selectedText (controls f QPort) of
                None \<Rightarrow> Inl TypeError
              | Some portText \<Rightarrow>
                 (case details f of
                    None \<Rightarrow> Inl TypeError
                  | Some d \<Rightarrow>
                     (case encodeURIComponent
                             (quote_body_text typeText portText (fvalue (controls f QName))
                                (fvalue (controls f QPhone)) (fvalue (controls f QEmail))
                                (fvalue d)) of
                        None \<Rightarrow> Inl URIError
                      | Some body \<Rightarrow>
                         (let f1 = f\<lparr>location_href :=
                                       Some (js ''mailto:'' @ recipient @ js ''?subject=''
                                             @ subject @ js ''&body='' @ body)\<rparr>;
                              f2 = f1\<lparr>submitBtn := (submitBtn f1)
                                         \<lparr>btn_textContent := js ''Opening Email...''\<rparr>,
                                      success_hidden := False,
                                      success_textContent :=
                                        js ''Opening your email client... Please click Send in the new window.''\<rparr>
                          in case createFallbackUI recipient subject body of
                               Inl e \<Rightarrow> Inl e
                             | Inr panel \<Rightarrow>
                                 Inr (f2\<lparr>email_fallback := Some panel,
                                         submitBtn := \<lparr>btn_disabled = False,
                                                       btn_textContent = originalBtnText\<rparr>\<rparr>)))))))"

record quote_page =
  has_quote_form :: bool
  page_qtype :: "field option"
  page_qport :: "field option"
  page_qname :: "field option"
  page_qphone :: "field option"
  page_qemail :: "field option"
  page_qdetails :: "field option"
  page_qsubmitBtn :: "submit_button option"
  page_qorder :: "quote_ref list"

definition initQuickQuoteForm :: "quote_page \<Rightarrow> quote_form option" where
  "initQuickQuoteForm p =
     (if \<not> has_quote_form p then None
      else
        (case (page_qtype p, page_qport p, page_qname p, page_qphone p, page_qemail p,
               page_qsubmitBtn p) of
           (Some type, Some port, Some name, Some phone, Some email, Some btn) \<Rightarrow>
             Some \<lparr>controls = (\<lambda>r. case r of QType \<Rightarrow> type | QPort \<Rightarrow> port | QName \<Rightarrow> name
                                         | QPhone \<Rightarrow> phone | QEmail \<Rightarrow> email),
                   doc_order = page_qorder p, submitBtn = btn, focus = None,
                   success_hidden = True, success_textContent = [],
                   email_fallback = None, location_href = None, clock = 0,
                   processing_due = [], details = page_qdetails p\<rparr>
         | _ \<Rightarrow> None))"

subsection \<open>Example pages\<close>

text \<open>A control with a value, no error shown yet, and its error element in the document.\<close>

definition fresh_field :: "string \<Rightarrow> jsstring \<Rightarrow> field" where
  "fresh_field i v =
     \<lparr>fid = i, fvalue = v, selectedText = None, aria_invalid = None, error_field = False,
      errorElement = Some \<lparr>textContent = [], role = []\<rparr>\<rparr>"

text \<open>A select whose chosen option has the value \<open>v\<close> and the text \<open>t\<close>.\<close>

definition fresh_select :: "string \<Rightarrow> jsstring \<Rightarrow> jsstring \<Rightarrow> field" where
  "fresh_select i v t = (fresh_field i v)\<lparr>selectedText := Some t\<rparr>"

text \<open>A contact page with its three fields filled in, in the order name, email, message;
  and the form \<open>initContactForm\<close> installs on it.\<close>

definition contact_page_with :: "jsstring \<Rightarrow> jsstring \<Rightarrow> jsstring \<Rightarrow> contact_page" where
  "contact_page_with n e m =
     \<lparr>has_contact_form = True,
      page_name = Some (fresh_field ''name'' n),
      page_email = Some (fresh_field ''email'' e),
      page_message = Some (fresh_field ''message'' m),
      page_submitBtn = Some \<lparr>btn_disabled = False, btn_textContent = js ''Send Message''\<rparr>,
      page_success = Some (True, []),
      page_order = [CName, CEmail, CMessage]\<rparr>"

definition contact_form_with :: "jsstring \<Rightarrow> jsstring \<Rightarrow> jsstring \<Rightarrow> contact_ref form" where
  "contact_form_with n e m =
     \<lparr>controls = (\<lambda>r. case r of CName \<Rightarrow> fresh_field ''name'' n
                            | CEmail \<Rightarrow> fresh_field ''email'' e
                            | CMessage \<Rightarrow> fresh_field ''message'' m),
      doc_order = [CName, CEmail, CMessage],
      submitBtn = \<lparr>btn_disabled = False, btn_textContent = js ''Send Message''\<rparr>,
      focus = None, success_hidden = True, success_textContent = [],
      email_fallback = None, location_href = None, clock = 0, processing_due = []\<rparr>"

text \<open>A quote page with every field filled in and valid; \<open>d\<close> is the element
  \<open>quote-details\<close>, if the page has one.\<close>

definition quote_page_with :: "field option \<Rightarrow> quote_page" where
  "quote_page_with d =
     \<lparr>has_quote_form = True,
      page_qtype = Some (fresh_select ''quote-type'' (js ''sea'') (js ''Sea Freight'')),
      page_qport = Some (fresh_select ''quote-port'' (js ''mundra'') (js ''Mundra Port'')),
      page_qname = Some (fresh_field ''quote-name'' (js ''Jane'')),
      page_qphone = Some (fresh_field ''quote-phone'' (js ''12345'')),
      page_qemail = Some (fresh_field ''quote-email'' (js ''jane@x.com'')),
      page_qdetails = d,
      page_qsubmitBtn = Some \<lparr>btn_disabled = False, btn_textContent = js ''Get Quote''\<rparr>,
      page_qorder = [QType, QPort, QName, QPhone, QEmail]\<rparr>"

definition quote_form_with :: "field option \<Rightarrow> quote_form" where
  "quote_form_with d =
     \<lparr>controls = (\<lambda>r. case r of
                          QType \<Rightarrow> fresh_select ''quote-type'' (js ''sea'') (js ''Sea Freight'')
                        | QPort \<Rightarrow> fresh_select ''quote-port'' (js ''mundra'') (js ''Mundra Port'')
                        | QName \<Rightarrow> fresh_field ''quote-name'' (js ''Jane'')
                        | QPhone \<Rightarrow> fresh_field ''quote-phone'' (js ''12345'')
                        | QEmail \<Rightarrow> fresh_field ''quote-email'' (js ''jane@x.com'')),
      doc_order = [QType, QPort, QName, QPhone, QEmail],
      submitBtn = \<lparr>btn_disabled = False, btn_textContent = js ''Get Quote''\<rparr>,
      focus = None, success_hidden = True, success_textContent = [],
      email_fallback = None, location_href = None, clock = 0, processing_due = [],
      details = d\<rparr>"

subsection \<open>The submission contract in the words of the specification\<close>

text \<open>Every field of the set is valid; the first field of the set, in its order, that is
  not; the submission enters Processing (the button is disabled, shows "Processing..."
  and the callback is scheduled); the submission stays out of it.\<close>

definition all_valid :: "('r \<times> rules) list \<Rightarrow> ('r, 'z) form_scheme \<Rightarrow> bool" where
  "all_valid rs f \<longleftrightarrow> list_all (\<lambda>(r, ru). fst (validateField (controls f r) ru)) rs"

definition first_invalid :: "('r \<times> rules) list \<Rightarrow> ('r, 'z) form_scheme \<Rightarrow> 'r option" where
  "first_invalid rs f =
     map_option fst (find (\<lambda>(r, ru). \<not> fst (validateField (controls f r) ru)) rs)"

definition enters_Processing :: "('r, 'z) form_scheme \<Rightarrow> ('r, 'z) form_scheme \<Rightarrow> bool" where
  "enters_Processing f f' \<longleftrightarrow>
     submitBtn f' = \<lparr>btn_disabled = True, btn_textContent = js ''Processing...''\<rparr>
     \<and> processing_due f' = processing_due f @ [(clock f + 800, btn_textContent (submitBtn f))]"

definition stays_out_of_Processing :: "('r, 'z) form_scheme \<Rightarrow> ('r, 'z) form_scheme \<Rightarrow> bool" where
  "stays_out_of_Processing f f' \<longleftrightarrow>
     submitBtn f' = submitBtn f \<and> processing_due f' = processing_due f"

text \<open>A rule set whose pattern and minimum length come with a message that is not empty,
  as those of both forms do.\<close>

definition messages_present :: "rules \<Rightarrow> bool" where
  "messages_present ru \<longleftrightarrow>
     (pattern ru = None \<or> truthy (patternError ru))
     \<and> (minLength ru = None \<or> minLength ru = Some 0 \<or> truthy (minLengthError ru))"

subsection \<open>A whole submission\<close>

text \<open>The contact form filled with \<open>n\<close>, \<open>e\<close>, \<open>m\<close> is submitted and the scheduled callback
  runs: the markup of the copy box of the panel, or \<open>None\<close> when the submission does not
  get as far as the panel.\<close>

definition contact_copy_box :: "jsstring \<Rightarrow> jsstring \<Rightarrow> jsstring \<Rightarrow> jsstring option" where
  "contact_copy_box n e m =
     (let f1 = contact_submit (contact_form_with n e m) in
      case processing_due f1 of
        [] \<Rightarrow> None
      | (due, originalBtnText) # rest \<Rightarrow>
          (case contact_process originalBtnText (f1\<lparr>clock := due, processing_due := rest\<rparr>) of
             Inl e \<Rightarrow> None
           | Inr f2 \<Rightarrow> map_option copyBox_innerHTML (email_fallback f2)))"

text \<open>The body of the quote message with every entry verbatim, the details included.\<close>

definition verbatim_quote_body ::
  "jsstring \<Rightarrow> jsstring \<Rightarrow> jsstring \<Rightarrow> jsstring \<Rightarrow> jsstring \<Rightarrow> jsstring \<Rightarrow> jsstring" where
  "verbatim_quote_body typeText portText name phone email detailsValue =
     js ''Service Type: '' @ typeText @ [0x0A]
     @ js ''Port/Location: '' @ portText @ [0x0A, 0x0A]
     @ js ''Name: '' @ name @ [0x0A]
     @ js ''Phone: '' @ phone @ [0x0A]
     @ js ''Email: '' @ email @ [0x0A, 0x0A]
     @ js ''Additional Details:'' @ [0x0A]
     @ detailsValue"

text \<open>A panel as \<open>createFallbackUI\<close> leaves it, before any click.\<close>

definition fresh_panel :: fallback where
  "fresh_panel =
     \<lparr>mailtoUrl = [], gmailUrl = [], yahooUrl = [], copyBox_innerHTML = js ''Name: Jane'',
      copyBtn_textContent = js ''Copy to Clipboard'', copyBox_focused = False,
      selectAll_done = False, clipboard = None, console_error = [], panel_clock = 0,
      reset_due = []\<rparr>"

text \<open>The markup of the copy box after the callback of the quote form has run, or \<open>None\<close>
  when the callback throws.\<close>

definition quote_copy_box :: "quote_form \<Rightarrow> jsstring option" where
  "quote_copy_box f =
     (case quote_process (btn_textContent (submitBtn f)) f of
        Inl e \<Rightarrow> None
      | Inr f2 \<Rightarrow> map_option copyBox_innerHTML (email_fallback f2))"

text \<open>Every reset is scheduled 2000 ms ahead of a clock that only moves forward, so the
  queue of a panel is always in the order of its due times: running it from the front is
  running the timers in the order in which they expire.\<close>

definition queue_in_order :: "fallback \<Rightarrow> bool" where
  "queue_in_order p \<longleftrightarrow>
     sorted (map fst (reset_due p)) \<and> list_all (\<lambda>x. fst x \<le> panel_clock p + 2000) (reset_due p)"

section \<open>Properties of the carousel\<close>

lemma index_update: "index (update c) = index c"
  by (simp add: update_def updateButtons_def updateDots_def Let_def)

lemma length_items_update: "length (items (update c)) = length (items c)"
  by (simp add: update_def updateButtons_def updateDots_def Let_def)

lemma length_items_step: "length (items (step e c)) = length (items c)"
  by (cases e)
     (simp_all add: goToNext_def goToPrev_def goToSlide_def advance_def Let_def length_items_update)

lemma in_bounds_step: "in_bounds c \<Longrightarrow> in_bounds (step e c)"
  by (cases e)
     (auto simp add: in_bounds_def goToNext_def goToPrev_def goToSlide_def advance_def Let_def
        length_items_update index_update)

lemma in_bounds_trace:
  "in_bounds c \<Longrightarrow> s \<in> set (trace c es) \<Longrightarrow> in_bounds s \<and> length (items s) = length (items c)"
proof (induction es arbitrary: c)
  case Nil
  then show ?case by simp
next
  case (Cons e es)
  from Cons.prems(2) have "s = step e c \<or> s \<in> set (trace (step e c) es)" by simp
  then show ?case
  proof
    assume "s = step e c"
    with Cons.prems(1) show ?thesis by (simp add: in_bounds_step length_items_step)
  next
    assume "s \<in> set (trace (step e c) es)"
    with Cons.IH [of "step e c"] Cons.prems(1) show ?thesis
      by (simp add: in_bounds_step length_items_step)
  qed
qed

text \<open>
  C1. A carousel with at least one slide that starts at index 0, in any lock state, is
  given any finite sequence of \<open>goToNext\<close>, \<open>goToPrev\<close>, \<open>goToSlide i\<close> (any integer \<open>i\<close>)
  and waiting periods (during which unlock timers fire). After every one of these inputs
  the index lies in \<open>[0, slideCount - 1]\<close>.
\<close>

theorem index_stays_in_bounds:
  assumes "1 \<le> length (items c)" and "index c = 0"
  shows "\<forall>s \<in> set (trace c es). 0 \<le> index s \<and> index s \<le> int (length (items c)) - 1"
proof
  fix s assume s: "s \<in> set (trace c es)"
  from assms have "in_bounds c" by (auto simp add: in_bounds_def)
  from in_bounds_trace [OF this s] show "0 \<le> index s \<and> index s \<le> int (length (items c)) - 1"
    by (simp add: in_bounds_def)
qed

theorem index_stays_in_bounds_witness:
  "1 \<le> length (items carousel3) \<and> index carousel3 = 0
   \<and> map index (trace carousel3
         [Prev, Next, Next, Wait 399, Next, Wait 1, Next, Next, Slide 7, Slide (- 1),
          Wait 400, Slide 0, Wait 1000, Slide 3, Slide 2])
       = [0, 1, 1, 1, 1, 1, 2, 2, 2, 2, 2, 0, 0, 0, 2]
   \<and> list_all (\<lambda>s. 0 \<le> index s \<and> index s \<le> 2) (trace carousel3
         [Prev, Next, Next, Wait 399, Next, Wait 1, Next, Next, Slide 7, Slide (- 1),
          Wait 400, Slide 0, Wait 1000, Slide 3, Slide 2])"
proof -
  have h1: "1 \<le> length (items carousel3)" by code_simp
  have h2: "index carousel3 = 0" by code_simp
  have n: "int (length (items carousel3)) - 1 = 2" by code_simp
  have t: "map index (trace carousel3
         [Prev, Next, Next, Wait 399, Next, Wait 1, Next, Next, Slide 7, Slide (- 1),
          Wait 400, Slide 0, Wait 1000, Slide 3, Slide 2])
       = [0, 1, 1, 1, 1, 1, 2, 2, 2, 2, 2, 0, 0, 0, 2]" by code_simp
  from index_stays_in_bounds [OF h1 h2] n
  have "list_all (\<lambda>s. 0 \<le> index s \<and> index s \<le> 2) (trace carousel3 es)" for es
    by (simp add: list_all_iff)
  with h1 h2 t show ?thesis by blast
qed

text \<open>
  C5. While \<open>isTransitioning\<close> is set, \<open>goToNext\<close>, \<open>goToPrev\<close> and \<open>goToSlide i\<close> return
  the state they were given: the input is dropped and nothing is queued. For a carousel
  that \<open>init\<close> built over three slides: the index is 0 and \<open>goToPrev\<close> changes nothing;
  one \<open>goToNext\<close> gives index 1; a second \<open>goToNext\<close>, at once or after any \<open>d < 400\<close> ms,
  changes nothing, so the index is 1 and not 2.
\<close>

theorem locked_calls_are_dropped:
  "(isTransitioning c \<longrightarrow> goToNext c = c \<and> goToPrev c = c \<and> goToSlide i c = c)
   \<and> (Carousel_init cd = Some c0 \<and> track_children cd = Some 3 \<longrightarrow>
        index c0 = 0 \<and> goToPrev c0 = c0
        \<and> index (goToNext c0) = 1
        \<and> goToNext (goToNext c0) = goToNext c0
        \<and> (d < 400 \<longrightarrow> goToNext (advance d (goToNext c0)) = advance d (goToNext c0)
                       \<and> index (goToNext (advance d (goToNext c0))) = 1))"
proof -
  have locked: "isTransitioning c \<longrightarrow> goToNext c = c \<and> goToPrev c = c \<and> goToSlide i c = c"
    by (simp add: goToNext_def goToPrev_def goToSlide_def)
  have scen: "index c0 = 0 \<and> goToPrev c0 = c0
        \<and> index (goToNext c0) = 1
        \<and> goToNext (goToNext c0) = goToNext c0
        \<and> (d < 400 \<longrightarrow> goToNext (advance d (goToNext c0)) = advance d (goToNext c0)
                       \<and> index (goToNext (advance d (goToNext c0))) = 1)"
    if init: "Carousel_init cd = Some c0" and three: "track_children cd = Some 3"
  proof -
    from init three have c0: "index c0 = 0" "length (items c0) = 3" "\<not> isTransitioning c0"
      "unlock_due c0 = []"
      by (auto simp add: Carousel_init_def created_def index_update length_items_update
          update_def updateButtons_def updateDots_def Let_def split: if_splits)
    let ?c1 = "goToNext c0"
    from c0 have c1: "index ?c1 = 1" "isTransitioning ?c1" "unlock_due ?c1 = [now c0 + 400]"
      "now ?c1 = now c0"
      by (simp_all add: goToNext_def Let_def update_def updateButtons_def updateDots_def)
    have prev: "goToPrev c0 = c0" using c0 by (simp add: goToPrev_def)
    have twice: "goToNext ?c1 = ?c1" using c1 by (simp add: goToNext_def)
    have window: "goToNext (advance d ?c1) = advance d ?c1 \<and> index (goToNext (advance d ?c1)) = 1"
      if "d < 400"
    proof -
      from that c1 have "isTransitioning (advance d ?c1)" "index (advance d ?c1) = 1"
        by (simp_all add: advance_def Let_def)
      then show ?thesis by (simp add: goToNext_def)
    qed
    from c0(1) c1(1) prev twice window show ?thesis by blast
  qed
  from locked scen show ?thesis by blast
qed

theorem locked_calls_are_dropped_witness:
  "isTransitioning (goToNext carousel3)
   \<and> goToNext (goToNext carousel3) = goToNext carousel3
   \<and> goToPrev (goToNext carousel3) = goToNext carousel3
   \<and> goToSlide 2 (goToNext carousel3) = goToNext carousel3
   \<and> Carousel_init three_slides = Some carousel3 \<and> track_children three_slides = Some 3
   \<and> goToPrev carousel3 = carousel3
   \<and> (399::nat) < 400
   \<and> index (goToNext (advance 399 (goToNext carousel3))) = 1
   \<and> index (goToNext (advance 400 (goToNext carousel3))) = 2"
proof -
  have l: "isTransitioning (goToNext carousel3)" by code_simp
  have i: "Carousel_init three_slides = Some carousel3 \<and> track_children three_slides = Some 3"
    by (simp add: Carousel_init_def three_slides_def carousel3_def)
  have a: "index (goToNext (advance 400 (goToNext carousel3))) = 2" by code_simp
  have lt: "(399::nat) < 400" by simp
  from locked_calls_are_dropped [of "goToNext carousel3" 2 three_slides carousel3 399] l i a lt
  show ?thesis by blast
qed



section \<open>Properties of the form validation module\<close>

subsection \<open>\<open>validateField\<close>\<close>

lemma shown_showError:
  "errorElement f \<noteq> None \<Longrightarrow> shown (showError f m) = Some (or_empty m)"
  by (auto simp add: shown_def showError_def Let_def)

lemma aria_invalid_showError:
  "aria_invalid (showError f m) = (if truthy m then Some ''true'' else None)"
  by (simp add: showError_def Let_def)

lemma error_field_showError: "error_field (showError f m) = truthy m"
  by (simp add: showError_def Let_def)

lemma validateField_cases:
  "validateField f ru =
     (if fails_required ru (trim (fvalue f)) then (False, showError f (required ru))
      else if fails_pattern ru (trim (fvalue f)) then (False, showError f (patternError ru))
      else if fails_minLength ru (trim (fvalue f))
        then (False, showError f (minLengthError ru))
      else (True, showError f (Some [])))"
  by (simp add: validateField_def fails_required_def fails_pattern_def fails_minLength_def
      Let_def)

lemma trim_all_whitespace: "\<forall>c \<in> set s. isWhiteSpace c \<Longrightarrow> trim s = []"
proof -
  assume "\<forall>c \<in> set s. isWhiteSpace c"
  then have d: "dropWhile isWhiteSpace s = []" by (simp add: dropWhile_eq_Nil_conv)
  show ?thesis unfolding trim_def d by simp
qed

text \<open>
  C3. \<open>validateField\<close> works on the trimmed value and checks required-ness, then the
  pattern, then the minimum length. At the first of the three that fails it returns
  \<open>false\<close> and shows that rule's message (the empty string when the rule set has none);
  it returns \<open>true\<close> exactly when none fails, and then the message is empty and the
  field is not marked invalid. The message is the text of the field's error element,
  which the page is taken to have. On the contact form filled with "Jane",
  "not-an-email" and "hi", a submission leaves "Please enter a valid email address" at the
  email field and "Message must be at least 10 characters" at the message field.
\<close>

theorem validateField_first_failing_rule:
  assumes "errorElement f \<noteq> None"
  shows "(fails_required ru (trim (fvalue f)) \<longrightarrow>
            validateField f ru = (False, showError f (required ru))
            \<and> shown (snd (validateField f ru)) = Some (or_empty (required ru)))
       \<and> (\<not> fails_required ru (trim (fvalue f)) \<and> fails_pattern ru (trim (fvalue f)) \<longrightarrow>
            validateField f ru = (False, showError f (patternError ru))
            \<and> shown (snd (validateField f ru)) = Some (or_empty (patternError ru)))
       \<and> (\<not> fails_required ru (trim (fvalue f)) \<and> \<not> fails_pattern ru (trim (fvalue f))
            \<and> fails_minLength ru (trim (fvalue f)) \<longrightarrow>
            validateField f ru = (False, showError f (minLengthError ru))
            \<and> shown (snd (validateField f ru)) = Some (or_empty (minLengthError ru)))
       \<and> (fst (validateField f ru) \<longleftrightarrow>
            \<not> fails_required ru (trim (fvalue f)) \<and> \<not> fails_pattern ru (trim (fvalue f))
            \<and> \<not> fails_minLength ru (trim (fvalue f)))
       \<and> (fst (validateField f ru) \<longrightarrow>
            shown (snd (validateField f ru)) = Some []
            \<and> aria_invalid (snd (validateField f ru)) = None
            \<and> \<not> error_field (snd (validateField f ru)))
       \<and> shown (controls (contact_submit
             (contact_form_with (js ''Jane'') (js ''not-an-email'') (js ''hi''))) CEmail)
           = Some (js ''Please enter a valid email address'')
       \<and> shown (controls (contact_submit
             (contact_form_with (js ''Jane'') (js ''not-an-email'') (js ''hi''))) CMessage)
           = Some (js ''Message must be at least 10 characters'')"
proof -
  have general: "(fails_required ru (trim (fvalue f)) \<longrightarrow>
            validateField f ru = (False, showError f (required ru))
            \<and> shown (snd (validateField f ru)) = Some (or_empty (required ru)))
       \<and> (\<not> fails_required ru (trim (fvalue f)) \<and> fails_pattern ru (trim (fvalue f)) \<longrightarrow>
            validateField f ru = (False, showError f (patternError ru))
            \<and> shown (snd (validateField f ru)) = Some (or_empty (patternError ru)))
       \<and> (\<not> fails_required ru (trim (fvalue f)) \<and> \<not> fails_pattern ru (trim (fvalue f))
            \<and> fails_minLength ru (trim (fvalue f)) \<longrightarrow>
            validateField f ru = (False, showError f (minLengthError ru))
            \<and> shown (snd (validateField f ru)) = Some (or_empty (minLengthError ru)))
       \<and> (fst (validateField f ru) \<longleftrightarrow>
            \<not> fails_required ru (trim (fvalue f)) \<and> \<not> fails_pattern ru (trim (fvalue f))
            \<and> \<not> fails_minLength ru (trim (fvalue f)))
       \<and> (fst (validateField f ru) \<longrightarrow>
            shown (snd (validateField f ru)) = Some []
            \<and> aria_invalid (snd (validateField f ru)) = None
            \<and> \<not> error_field (snd (validateField f ru)))"
    using assms
    by (simp add: validateField_cases shown_showError aria_invalid_showError
        error_field_showError or_empty_def truthy_def)
  have email: "shown (controls (contact_submit
             (contact_form_with (js ''Jane'') (js ''not-an-email'') (js ''hi''))) CEmail)
           = Some (js ''Please enter a valid email address'')"
    by code_simp
  have message: "shown (controls (contact_submit
             (contact_form_with (js ''Jane'') (js ''not-an-email'') (js ''hi''))) CMessage)
           = Some (js ''Message must be at least 10 characters'')"
    by code_simp
  from general email message show ?thesis by blast
qed

theorem validateField_first_failing_rule_witness:
  "errorElement (fresh_field ''message'' (js ''  hi  '')) \<noteq> None
   \<and> \<not> fails_required (contact_rule CMessage) (trim (fvalue (fresh_field ''message'' (js ''  hi  ''))))
   \<and> \<not> fails_pattern (contact_rule CMessage) (trim (fvalue (fresh_field ''message'' (js ''  hi  ''))))
   \<and> fails_minLength (contact_rule CMessage) (trim (fvalue (fresh_field ''message'' (js ''  hi  ''))))
   \<and> \<not> fst (validateField (fresh_field ''message'' (js ''  hi  '')) (contact_rule CMessage))
   \<and> shown (snd (validateField (fresh_field ''message'' (js ''  hi  '')) (contact_rule CMessage)))
       = Some (js ''Message must be at least 10 characters'')
   \<and> fails_required (contact_rule CEmail) (trim (fvalue (fresh_field ''email'' (js ''   ''))))
   \<and> shown (snd (validateField (fresh_field ''email'' (js ''   '')) (contact_rule CEmail)))
       = Some (js ''Please enter your email'')
   \<and> fst (validateField (fresh_field ''email'' (js ''jane@x.com'')) (contact_rule CEmail))
   \<and> shown (snd (validateField (fresh_field ''email'' (js ''jane@x.com'')) (contact_rule CEmail)))
       = Some []"
proof -
  let ?m = "fresh_field ''message'' (js ''  hi  '')"
  let ?b = "fresh_field ''email'' (js ''   '')"
  let ?e = "fresh_field ''email'' (js ''jane@x.com'')"
  have el: "errorElement ?m \<noteq> None" "errorElement ?b \<noteq> None" "errorElement ?e \<noteq> None"
    by (simp_all add: fresh_field_def)
  have m: "\<not> fails_required (contact_rule CMessage) (trim (fvalue ?m))"
    "\<not> fails_pattern (contact_rule CMessage) (trim (fvalue ?m))"
    "fails_minLength (contact_rule CMessage) (trim (fvalue ?m))"
    by code_simp+
  have mm: "or_empty (minLengthError (contact_rule CMessage))
              = js ''Message must be at least 10 characters''"
    by code_simp
  have b: "fails_required (contact_rule CEmail) (trim (fvalue ?b))" by code_simp
  have bm: "or_empty (required (contact_rule CEmail)) = js ''Please enter your email''"
    by code_simp
  have e: "\<not> fails_required (contact_rule CEmail) (trim (fvalue ?e))"
    "\<not> fails_pattern (contact_rule CEmail) (trim (fvalue ?e))"
    "\<not> fails_minLength (contact_rule CEmail) (trim (fvalue ?e))"
    by code_simp+
  note rm = validateField_first_failing_rule [OF el(1), of "contact_rule CMessage"]
  note rb = validateField_first_failing_rule [OF el(2), of "contact_rule CEmail"]
  note re = validateField_first_failing_rule [OF el(3), of "contact_rule CEmail"]
  note rm3 = rm [THEN conjunct2, THEN conjunct2, THEN conjunct1, THEN mp,
      OF conjI [OF m(1) conjI [OF m(2) m(3)]]]
  note rm4 = rm [THEN conjunct2, THEN conjunct2, THEN conjunct2, THEN conjunct1]
  from rm3 have "validateField ?m (contact_rule CMessage)
      = (False, showError ?m (minLengthError (contact_rule CMessage)))" by (rule conjunct1)
  then have m1: "\<not> fst (validateField ?m (contact_rule CMessage))"
    by (simp only: fst_conv simp_thms)
  from rm3 have "shown (snd (validateField ?m (contact_rule CMessage)))
      = Some (or_empty (minLengthError (contact_rule CMessage)))" by (rule conjunct2)
  then have m2: "shown (snd (validateField ?m (contact_rule CMessage)))
      = Some (js ''Message must be at least 10 characters'')" by (simp only: mm)
  from rb [THEN conjunct1, THEN mp, OF b]
  have "shown (snd (validateField ?b (contact_rule CEmail)))
      = Some (or_empty (required (contact_rule CEmail)))" by (rule conjunct2)
  then have b2: "shown (snd (validateField ?b (contact_rule CEmail)))
      = Some (js ''Please enter your email'')" by (simp only: bm)
  from re [THEN conjunct2, THEN conjunct2, THEN conjunct2, THEN conjunct1] e
  have e1: "fst (validateField ?e (contact_rule CEmail))" by (simp only: simp_thms)
  from re [THEN conjunct2, THEN conjunct2, THEN conjunct2, THEN conjunct2, THEN conjunct1,
      THEN mp, OF e1]
  have e2: "shown (snd (validateField ?e (contact_rule CEmail))) = Some []" by (rule conjunct1)
  from el(1) m m1 m2 b b2 e1 e2 show ?thesis by (intro conjI)
qed

text \<open>
  C9. A rule set without a required rule (none, or one whose message is the empty string)
  and a value that trims to the empty string, as every value made of white space does:
  \<open>validateField\<close> returns \<open>true\<close> and clears the message and the invalid mark, whatever
  the pattern and the minimum length of the rule set are.
\<close>

theorem optional_blank_passes:
  assumes "\<not> truthy (required ru)"
    and "trim (fvalue f) = [] \<or> (\<forall>c \<in> set (fvalue f). isWhiteSpace c)"
  shows "validateField f ru = (True, showError f (Some []))
       \<and> aria_invalid (snd (validateField f ru)) = None
       \<and> \<not> error_field (snd (validateField f ru))
       \<and> (errorElement f \<noteq> None \<longrightarrow> shown (snd (validateField f ru)) = Some [])"
proof -
  from assms(2) have "trim (fvalue f) = []" by (auto simp add: trim_all_whitespace)
  with assms(1) have "validateField f ru = (True, showError f (Some []))"
    by (simp add: validateField_cases fails_required_def fails_pattern_def
        fails_minLength_def)
  then show ?thesis
    by (auto simp add: shown_showError aria_invalid_showError error_field_showError
        or_empty_def truthy_def)
qed

theorem optional_blank_passes_witness:
  "\<not> truthy (required ((contact_rule CEmail)\<lparr>required := None, minLength := Some 10\<rparr>))
   \<and> list_all isWhiteSpace (fvalue ((fresh_field ''optional'' (js ''   ''))
                                  \<lparr>aria_invalid := Some ''true'', error_field := True\<rparr>))
   \<and> fst (validateField ((fresh_field ''optional'' (js ''   ''))
                            \<lparr>aria_invalid := Some ''true'', error_field := True\<rparr>)
             ((contact_rule CEmail)\<lparr>required := None, minLength := Some 10\<rparr>))
   \<and> aria_invalid (snd (validateField ((fresh_field ''optional'' (js ''   ''))
                            \<lparr>aria_invalid := Some ''true'', error_field := True\<rparr>)
             ((contact_rule CEmail)\<lparr>required := None, minLength := Some 10\<rparr>))) = None
   \<and> shown (snd (validateField ((fresh_field ''optional'' (js ''   ''))
                            \<lparr>aria_invalid := Some ''true'', error_field := True\<rparr>)
             ((contact_rule CEmail)\<lparr>required := None, minLength := Some 10\<rparr>))) = Some []"
proof -
  let ?ru = "(contact_rule CEmail)\<lparr>required := None, minLength := Some 10\<rparr>"
  let ?f = "(fresh_field ''optional'' (js ''   ''))
              \<lparr>aria_invalid := Some ''true'', error_field := True\<rparr>"
  have h1: "\<not> truthy (required ?ru)" by (simp add: truthy_def)
  have w: "list_all isWhiteSpace (fvalue ?f)" by code_simp
  then have h2: "trim (fvalue ?f) = [] \<or> (\<forall>c \<in> set (fvalue ?f). isWhiteSpace c)"
    by (simp add: list_all_iff)
  have el: "errorElement ?f \<noteq> None" by (simp add: fresh_field_def)
  note r = optional_blank_passes [OF h1 h2]
  from r have "validateField ?f ?ru = (True, showError ?f (Some []))" by blast
  then have v: "fst (validateField ?f ?ru)" by (simp only: fst_conv)
  from r el have a: "aria_invalid (snd (validateField ?f ?ru)) = None"
    "shown (snd (validateField ?f ?ru)) = Some []"
    by blast+
  from h1 w v a show ?thesis by blast
qed

subsection \<open>The submit handlers\<close>

lemma validate_ref_eq:
  "validate_ref r ru f = (fst (validateField (controls f r) ru),
       f\<lparr>controls := (controls f)(r := snd (validateField (controls f r) ru))\<rparr>)"
  by (simp add: validate_ref_def split_beta)

text \<open>With no field listed twice, \<open>validate_all\<close> validates every field of the list on the
  value it had before, and returns the conjunction of the results.\<close>

lemma validate_all_eq:
  "distinct (map fst rs) \<Longrightarrow>
   validate_all rs b f =
     ((\<forall>(r, ru) \<in> set rs. fst (validateField (controls f r) ru)) \<and> b,
      f\<lparr>controls := (\<lambda>r. case map_of rs r of None \<Rightarrow> controls f r
                              | Some ru \<Rightarrow> snd (validateField (controls f r) ru))\<rparr>)"
proof (induction rs arbitrary: b f)
  case Nil
  then show ?case by simp
next
  case (Cons p rs)
  obtain r ru where p: "p = (r, ru)" by (cases p)
  let ?f1 = "f\<lparr>controls := (controls f)(r := snd (validateField (controls f r) ru))\<rparr>"
  from Cons.prems p have d: "distinct (map fst rs)" and nr: "r \<notin> fst ` set rs" by auto
  have same: "controls ?f1 r' = controls f r'" if "r' \<in> fst ` set rs" for r'
    using that nr by auto
  have v: "(\<forall>(r', ru') \<in> set rs. fst (validateField (controls ?f1 r') ru'))
         = (\<forall>(r', ru') \<in> set rs. fst (validateField (controls f r') ru'))"
  proof -
    have "controls ?f1 r' = controls f r'" if "(r', ru') \<in> set rs" for r' ru'
    proof -
      from that have "r' \<in> fst ` set rs" by force
      then show ?thesis by (rule same)
    qed
    then show ?thesis by (simp add: case_prod_beta' split_def) (metis prod.collapse)
  qed
  have c: "(\<lambda>r'. case map_of rs r' of None \<Rightarrow> controls ?f1 r'
                  | Some ru' \<Rightarrow> snd (validateField (controls ?f1 r') ru'))
         = (\<lambda>r'. case map_of ((r, ru) # rs) r' of None \<Rightarrow> controls f r'
                  | Some ru' \<Rightarrow> snd (validateField (controls f r') ru'))"
  proof
    fix r'
    show "(case map_of rs r' of None \<Rightarrow> controls ?f1 r'
                  | Some ru' \<Rightarrow> snd (validateField (controls ?f1 r') ru'))
         = (case map_of ((r, ru) # rs) r' of None \<Rightarrow> controls f r'
                  | Some ru' \<Rightarrow> snd (validateField (controls f r') ru'))"
    proof (cases "r' = r")
      case True
      with nr have "map_of rs r' = None" by (simp add: map_of_eq_None_iff)
      with True show ?thesis by simp
    next
      case False
      then show ?thesis by (simp split: option.splits)
    qed
  qed
  have "validate_all (p # rs) b f
          = validate_all rs (fst (validateField (controls f r) ru) \<and> b) ?f1"
    unfolding p by (simp add: validate_ref_eq)
  also have "\<dots> = ((\<forall>(r', ru') \<in> set rs. fst (validateField (controls ?f1 r') ru'))
                      \<and> fst (validateField (controls f r) ru) \<and> b,
                   ?f1\<lparr>controls := (\<lambda>r'. case map_of rs r' of None \<Rightarrow> controls ?f1 r'
                        | Some ru' \<Rightarrow> snd (validateField (controls ?f1 r') ru'))\<rparr>)"
    by (rule Cons.IH [OF d])
  also have "\<dots> = ((\<forall>(r', ru') \<in> set (p # rs). fst (validateField (controls f r') ru')) \<and> b,
                   f\<lparr>controls := (\<lambda>r'. case map_of (p # rs) r' of None \<Rightarrow> controls f r'
                        | Some ru' \<Rightarrow> snd (validateField (controls f r') ru'))\<rparr>)"
    unfolding v c unfolding p by auto
  finally show ?case .
qed

text \<open>With messages present, a validated field carries \<open>aria-invalid="true"\<close> exactly when
  its validation failed.\<close>

lemma invalid_is_marked:
  assumes "messages_present ru"
  shows "aria_invalid (snd (validateField fld ru)) = Some ''true''
           \<longleftrightarrow> \<not> fst (validateField fld ru)"
  using assms
  by (auto simp add: validateField_cases messages_present_def aria_invalid_showError
      fails_required_def fails_pattern_def fails_minLength_def truthy_def
      split: option.splits)

lemma find_filter_superset:
  "(\<And>x. x \<in> set xs \<Longrightarrow> P x \<Longrightarrow> Q x) \<Longrightarrow> find P (filter Q xs) = find P xs"
  by (induction xs) auto

lemma find_map_fst: "find P (map g xs) = map_option g (find (\<lambda>x. P (g x)) xs)"
  by (induction xs) auto

lemma find_cong_set: "(\<And>x. x \<in> set xs \<Longrightarrow> P x = Q x) \<Longrightarrow> find P xs = find Q xs"
  by (induction xs) auto

text \<open>The forms of the example pages are the ones the two \<open>init\<close> functions install.\<close>

lemma init_installs_example_forms:
  "initContactForm (contact_page_with n e m) = Some (contact_form_with n e m)"
  "initQuickQuoteForm (quote_page_with d) = Some (quote_form_with d)"
  by (simp_all add: initContactForm_def contact_page_with_def contact_form_with_def
      initQuickQuoteForm_def quote_page_with_def quote_form_with_def)

text \<open>
  The contract of \<open>submit\<close> for any field set \<open>rs\<close>, with no field listed twice and rule
  sets that carry their messages, on a form that shows the fields of \<open>rs\<close> in the order of
  \<open>rs\<close> and has no other control marked invalid.
\<close>

lemma submit_generic:
  fixes f :: "('r, 'z) form_scheme"
  assumes dist: "distinct (map fst rs)"
    and msgs0: "\<forall>(r, ru) \<in> set rs. messages_present ru"
    and order: "filter (\<lambda>r. r \<in> fst ` set rs) (doc_order f) = map fst rs"
    and others0: "\<forall>r \<in> set (doc_order f). r \<notin> fst ` set rs
                    \<longrightarrow> aria_invalid (controls f r) \<noteq> Some ''true''"
  shows "(\<forall>(r, ru) \<in> set rs. controls (submit rs f) r = snd (validateField (controls f r) ru))
       \<and> (\<not> all_valid rs f \<longrightarrow>
             stays_out_of_Processing f (submit rs f)
             \<and> (\<exists>r. first_invalid rs f = Some r \<and> focus (submit rs f) = Some (Field r)))
       \<and> (enters_Processing f (submit rs f) \<longleftrightarrow> all_valid rs f)"
proof -
  from msgs0 have msgs: "messages_present ru" if "(r, ru) \<in> set rs" for r ru
    using that by auto
  from others0 have others: "aria_invalid (controls f r) \<noteq> Some ''true''"
    if "r \<in> set (doc_order f)" "r \<notin> fst ` set rs" for r
    using that by auto
  let ?V = "\<lambda>(r, ru). fst (validateField (controls f r) ru)"
  define c1 where "c1 = (\<lambda>r. case map_of rs r of None \<Rightarrow> controls f r
                    | Some ru \<Rightarrow> snd (validateField (controls f r) ru))"
  let ?f1 = "f\<lparr>controls := c1\<rparr>"
  have va: "validate_all rs True f = (all_valid rs f, ?f1)"
    by (simp add: validate_all_eq [OF dist] all_valid_def list_all_iff c1_def)
  have c1_in: "c1 r = snd (validateField (controls f r) ru)" if "(r, ru) \<in> set rs" for r ru
    using that dist by (simp add: c1_def)
  have c1_out: "c1 r = controls f r" if "r \<notin> fst ` set rs" for r
  proof -
    from that have "map_of rs r = None" by (simp add: map_of_eq_None_iff)
    then show ?thesis by (simp add: c1_def)
  qed
  let ?P = "\<lambda>r. aria_invalid (c1 r) = Some ''true''"
  have q: "querySelector_invalid ?f1 = first_invalid rs f"
  proof -
    have "querySelector_invalid ?f1 = find ?P (doc_order f)"
      by (simp add: querySelector_invalid_def)
    also have "\<dots> = find ?P (filter (\<lambda>r. r \<in> fst ` set rs) (doc_order f))"
    proof (rule find_filter_superset [symmetric])
      fix r assume r: "r \<in> set (doc_order f)" and p: "?P r"
      show "r \<in> fst ` set rs"
      proof (rule ccontr)
        assume n: "r \<notin> fst ` set rs"
        from p c1_out [OF n] have "aria_invalid (controls f r) = Some ''true''" by simp
        with others [OF r n] show False by simp
      qed
    qed
    also have "\<dots> = find ?P (map fst rs)" by (simp only: order)
    also have "\<dots> = map_option fst (find (\<lambda>x. ?P (fst x)) rs)" by (rule find_map_fst)
    also have "find (\<lambda>x. ?P (fst x)) rs = find (\<lambda>x. \<not> ?V x) rs"
    proof (rule find_cong_set)
      fix x assume x: "x \<in> set rs"
      obtain r ru where xe: "x = (r, ru)" by (cases x)
      from x xe have m: "(r, ru) \<in> set rs" by simp
      have "c1 r = snd (validateField (controls f r) ru)" by (rule c1_in [OF m])
      then have "?P r = (\<not> fst (validateField (controls f r) ru))"
        by (simp only: invalid_is_marked [OF msgs [OF m]])
      then show "?P (fst x) = (\<not> ?V x)" unfolding xe by simp
    qed
    finally show ?thesis by (simp add: first_invalid_def split_def)
  qed
  have a: "\<forall>(r, ru) \<in> set rs. controls (submit rs f) r = snd (validateField (controls f r) ru)"
  proof -
    have "controls (submit rs f) = c1"
      by (simp add: submit_def va Let_def split: option.splits)
    with c1_in show ?thesis by auto
  qed
  have b: "stays_out_of_Processing f (submit rs f)
             \<and> (\<exists>r. first_invalid rs f = Some r \<and> focus (submit rs f) = Some (Field r))"
    if nv: "\<not> all_valid rs f"
  proof -
    from nv obtain x where "x \<in> set rs" "\<not> ?V x"
      by (auto simp add: all_valid_def list_all_iff)
    then have "find (\<lambda>x. \<not> ?V x) rs \<noteq> None" by (auto simp add: find_None_iff)
    then obtain r where r: "first_invalid rs f = Some r"
      by (auto simp add: first_invalid_def split_def)
    with nv q show ?thesis
      by (simp add: submit_def va stays_out_of_Processing_def)
  qed
  have c: "enters_Processing f (submit rs f) \<longleftrightarrow> all_valid rs f"
  proof (cases "all_valid rs f")
    case True
    then show ?thesis by (simp add: submit_def va enters_Processing_def Let_def)
  next
    case False
    from b [OF False] have "processing_due (submit rs f) = processing_due f"
      by (simp add: stays_out_of_Processing_def)
    with False show ?thesis by (simp add: enters_Processing_def)
  qed
  from a b c show ?thesis by blast
qed

lemma contact_rules_ok:
  "distinct (map fst contact_rules)" "\<forall>(r, ru) \<in> set contact_rules. messages_present ru"
  "fst ` set contact_rules = UNIV"
proof -
  show "distinct (map fst contact_rules)" by (simp add: contact_rules_def)
  show "\<forall>(r, ru) \<in> set contact_rules. messages_present ru"
    by (simp add: contact_rules_def contact_rule_def messages_present_def truthy_def js_def)
  show "fst ` set contact_rules = UNIV"
  proof -
    have "x \<in> fst ` set contact_rules" for x
      by (cases x) (simp_all add: contact_rules_def)
    then show ?thesis by blast
  qed
qed

lemma quote_rules_ok:
  "distinct (map fst quote_rules)" "\<forall>(r, ru) \<in> set quote_rules. messages_present ru"
  "fst ` set quote_rules = UNIV"
proof -
  show "distinct (map fst quote_rules)" by (simp add: quote_rules_def)
  show "\<forall>(r, ru) \<in> set quote_rules. messages_present ru"
    by (simp add: quote_rules_def quote_rule_def messages_present_def truthy_def js_def)
  show "fst ` set quote_rules = UNIV"
  proof -
    have "x \<in> fst ` set quote_rules" for x
      by (cases x) (simp_all add: quote_rules_def)
    then show ?thesis by blast
  qed
qed

text \<open>
  C2. For the contact form and for the quote form, each with its fields standing in the
  form in the order in which the handler validates them: a submission runs
  \<open>validateField\<close> on every field of the set, so that afterwards every field shows the
  result of its own validation; if some field is invalid, the submit button and the
  pending callbacks are as before (Processing is not entered) and the focus is on the
  first invalid field in field order; Processing is entered exactly when every field is
  valid.
\<close>

theorem submit_validates_every_field:
  fixes c :: "contact_ref form" and q :: quote_form
  assumes "doc_order c = [CName, CEmail, CMessage]"
    and "doc_order q = [QType, QPort, QName, QPhone, QEmail]"
  shows "(\<forall>(r, ru) \<in> set contact_rules.
            controls (contact_submit c) r = snd (validateField (controls c r) ru))
       \<and> (\<not> all_valid contact_rules c \<longrightarrow>
             stays_out_of_Processing c (contact_submit c)
             \<and> (\<exists>r. first_invalid contact_rules c = Some r
                    \<and> focus (contact_submit c) = Some (Field r)))
       \<and> (enters_Processing c (contact_submit c) \<longleftrightarrow> all_valid contact_rules c)
       \<and> (\<forall>(r, ru) \<in> set quote_rules.
            controls (quote_submit q) r = snd (validateField (controls q r) ru))
       \<and> (\<not> all_valid quote_rules q \<longrightarrow>
             stays_out_of_Processing q (quote_submit q)
             \<and> (\<exists>r. first_invalid quote_rules q = Some r
                    \<and> focus (quote_submit q) = Some (Field r)))
       \<and> (enters_Processing q (quote_submit q) \<longleftrightarrow> all_valid quote_rules q)"
proof -
  have oc: "filter (\<lambda>r. r \<in> fst ` set contact_rules) (doc_order c) = map fst contact_rules"
    unfolding contact_rules_ok(3) using assms(1) by (simp add: contact_rules_def)
  have oq: "filter (\<lambda>r. r \<in> fst ` set quote_rules) (doc_order q) = map fst quote_rules"
    unfolding quote_rules_ok(3) using assms(2) by (simp add: quote_rules_def)
  have nc: "\<forall>r \<in> set (doc_order c). r \<notin> fst ` set contact_rules
               \<longrightarrow> aria_invalid (controls c r) \<noteq> Some ''true''"
    by (simp add: contact_rules_ok(3))
  have nq: "\<forall>r \<in> set (doc_order q). r \<notin> fst ` set quote_rules
               \<longrightarrow> aria_invalid (controls q r) \<noteq> Some ''true''"
    by (simp add: quote_rules_ok(3))
  note C = submit_generic [of contact_rules c, OF contact_rules_ok(1) contact_rules_ok(2) oc nc]
  note Q = submit_generic [of quote_rules q, OF quote_rules_ok(1) quote_rules_ok(2) oq nq]
  from C Q show ?thesis unfolding contact_submit_def quote_submit_def by blast
qed

theorem submit_validates_every_field_witness:
  "doc_order (contact_form_with (js ''Jane'') (js ''not-an-email'') (js ''hi''))
     = [CName, CEmail, CMessage]
   \<and> doc_order (quote_form_with None) = [QType, QPort, QName, QPhone, QEmail]
   \<and> \<not> all_valid contact_rules (contact_form_with (js ''Jane'') (js ''not-an-email'') (js ''hi''))
   \<and> first_invalid contact_rules
        (contact_form_with (js ''Jane'') (js ''not-an-email'') (js ''hi'')) = Some CEmail
   \<and> focus (contact_submit (contact_form_with (js ''Jane'') (js ''not-an-email'') (js ''hi'')))
       = Some (Field CEmail)
   \<and> stays_out_of_Processing
        (contact_form_with (js ''Jane'') (js ''not-an-email'') (js ''hi''))
        (contact_submit (contact_form_with (js ''Jane'') (js ''not-an-email'') (js ''hi'')))
   \<and> all_valid quote_rules (quote_form_with None)
   \<and> enters_Processing (quote_form_with None) (quote_submit (quote_form_with None))"
proof -
  let ?c = "contact_form_with (js ''Jane'') (js ''not-an-email'') (js ''hi'')"
  let ?q = "quote_form_with None"
  have h1: "doc_order ?c = [CName, CEmail, CMessage]" by (simp add: contact_form_with_def)
  have h2: "doc_order ?q = [QType, QPort, QName, QPhone, QEmail]"
    by (simp add: quote_form_with_def)
  have nv: "\<not> all_valid contact_rules ?c" by code_simp
  have fi: "first_invalid contact_rules ?c = Some CEmail" by code_simp
  have av: "all_valid quote_rules ?q" by code_simp
  note r = submit_validates_every_field [OF h1 h2]
  from r nv have so: "stays_out_of_Processing ?c (contact_submit ?c)" by blast
  from r nv obtain x where "first_invalid contact_rules ?c = Some x"
    "focus (contact_submit ?c) = Some (Field x)" by blast
  with fi have fo: "focus (contact_submit ?c) = Some (Field CEmail)" by simp
  from r av have en: "enters_Processing ?q (quote_submit ?q)" by blast
  from h1 h2 nv fi fo so av en show ?thesis by blast
qed

subsection \<open>Decoding undoes encoding\<close>

text \<open>Whatever \<open>encodeURIComponent\<close> returns, \<open>decodeURIComponent\<close> reads back as the string
  that was encoded: the escapes give the UTF-8 octets, and the octets of a code point give
  its code units.\<close>

lemma hexValue_hexDigit: "d < 16 \<Longrightarrow> hexValue (hexDigit d) = Some d"
proof -
  assume "d < 16"
  then have "d = 0 \<or> d = 1 \<or> d = 2 \<or> d = 3 \<or> d = 4 \<or> d = 5 \<or> d = 6 \<or> d = 7
    \<or> d = 8 \<or> d = 9 \<or> d = 10 \<or> d = 11 \<or> d = 12 \<or> d = 13 \<or> d = 14 \<or> d = 15"
    by presburger
  then show ?thesis
    by (elim disjE) (simp_all add: hexValue_def hexDigit_def)
qed

lemma unescape_escape:
  "\<forall>b \<in> set octets. b < 256 \<Longrightarrow>
   unescape (escape octets @ rest) = map_option ((@) (map Octet octets)) (unescape rest)"
proof (induction octets)
  case Nil
  then show ?case by (simp add: escape_def option.map_ident)
next
  case (Cons b octets)
  then have b: "b div 16 < 16" "b mod 16 < 16" and rest: "\<forall>b \<in> set octets. b < 256" by auto
  have e: "escape (b # octets) = [0x25, hexDigit (b div 16), hexDigit (b mod 16)] @ escape octets"
    by (simp add: escape_def)
  have "b div 16 * 16 + b mod 16 = b" by simp
  then show ?case
    using Cons.IH [OF rest]
    by (simp add: e hexValue_hexDigit [OF b(1)] hexValue_hexDigit [OF b(2)]
        option.map_comp comp_def)
qed

lemma utf8_octets: "cp < 0x110000 \<Longrightarrow> \<forall>b \<in> set (utf8 cp). b < 256"
  by (auto simp add: utf8_def)

lemma utf16_bmp: "utf16 (unat c) = [c]"
proof -
  have "unat c < 0x10000" using unsigned_less [of c, where ?'a = nat] by simp
  then show ?thesis by (simp add: utf16_def)
qed

lemma utf16_pair:
  assumes "isLeadSurrogate hi" and "isTrailSurrogate lo"
  shows "utf16 (pairCodePoint hi lo) = [hi, lo]"
proof -
  from assms have h: "0xD800 \<le> unat hi" "unat hi \<le> 0xDBFF" and l: "0xDC00 \<le> unat lo" "unat lo \<le> 0xDFFF"
    by (simp_all add: isLeadSurrogate_def isTrailSurrogate_def word_le_nat_alt)
  define a where "a = unat hi - 0xD800"
  define b where "b = unat lo - 0xDC00"
  from h l have ab: "unat hi = 0xD800 + a" "unat lo = 0xDC00 + b" "a < 0x400" "b < 0x400"
    by (simp_all add: a_def b_def)
  have cp: "pairCodePoint hi lo = a * 0x400 + b + 0x10000"
    by (simp add: pairCodePoint_def a_def b_def)
  have "utf16 (pairCodePoint hi lo) = [of_nat (0xD800 + a), of_nat (0xDC00 + b)]"
    using ab(3,4) by (simp add: cp utf16_def)
  also have "\<dots> = [of_nat (unat hi), of_nat (unat lo)]" by (simp only: ab)
  finally show ?thesis by simp
qed

lemma pair_range:
  assumes "isLeadSurrogate hi" and "isTrailSurrogate lo"
  shows "0x10000 \<le> pairCodePoint hi lo \<and> pairCodePoint hi lo \<le> 0x10FFFF"
proof -
  from assms have h: "0xD800 \<le> unat hi" "unat hi \<le> 0xDBFF" and l: "0xDC00 \<le> unat lo" "unat lo \<le> 0xDFFF"
    by (simp_all add: isLeadSurrogate_def isTrailSurrogate_def word_le_nat_alt)
  then show ?thesis by (simp add: pairCodePoint_def)
qed


lemma recombine2: "(cp::nat) div 0x40 mod 0x40 * 0x40 + cp mod 0x40 = cp mod 0x1000"
  using mod_mult2_eq [of cp "0x40" "0x40"] by simp

lemma recombine3: "(cp::nat) div 0x1000 mod 0x40 * 0x1000 + cp mod 0x1000 = cp mod 0x40000"
  using mod_mult2_eq [of cp "0x1000" "0x40"] by simp

lemma recombine_three: "(cp::nat) div 0x1000 * 0x1000 + cp div 0x40 mod 0x40 * 0x40 + cp mod 0x40 = cp"
proof -
  have "cp div 0x1000 * 0x1000 + cp div 0x40 mod 0x40 * 0x40 + cp mod 0x40
        = cp div 0x1000 * 0x1000 + (cp div 0x40 mod 0x40 * 0x40 + cp mod 0x40)" by simp
  also have "\<dots> = cp div 0x1000 * 0x1000 + cp mod 0x1000" by (simp only: recombine2)
  also have "\<dots> = cp" by simp
  finally show ?thesis .
qed

lemma recombine_four: "(cp::nat) div 0x40000 * 0x40000 + cp div 0x1000 mod 0x40 * 0x1000
             + cp div 0x40 mod 0x40 * 0x40 + cp mod 0x40 = cp"
proof -
  have "cp div 0x40000 * 0x40000 + cp div 0x1000 mod 0x40 * 0x1000
             + cp div 0x40 mod 0x40 * 0x40 + cp mod 0x40
        = cp div 0x40000 * 0x40000 + (cp div 0x1000 mod 0x40 * 0x1000
             + (cp div 0x40 mod 0x40 * 0x40 + cp mod 0x40))" by simp
  also have "\<dots> = cp div 0x40000 * 0x40000 + (cp div 0x1000 mod 0x40 * 0x1000 + cp mod 0x1000)"
    by (simp only: recombine2)
  also have "\<dots> = cp div 0x40000 * 0x40000 + cp mod 0x40000" by (simp only: recombine3)
  also have "\<dots> = cp" by simp
  finally show ?thesis .
qed


lemma decode_one_octet:
  "b < 0x80 \<Longrightarrow> decode_utf8 (Octet b # ts) = map_option ((@) (utf16 b)) (decode_utf8 ts)"
  by (cases "decode_utf8 ts") (simp_all add: utf16_def)

lemma decode_two_octets:
  "a < 0x20 \<Longrightarrow> m < 0x40 \<Longrightarrow> 0x80 \<le> a * 0x40 + m \<Longrightarrow>
   decode_utf8 (Octet (0xC0 + a) # Octet (0x80 + m) # ts)
     = map_option ((@) (utf16 (a * 0x40 + m))) (decode_utf8 ts)"
  by (simp add: continuation_def Let_def)

lemma decode_three_octets:
  "a < 0x10 \<Longrightarrow> m1 < 0x40 \<Longrightarrow> m2 < 0x40 \<Longrightarrow> 0x800 \<le> a * 0x1000 + m1 * 0x40 + m2 \<Longrightarrow>
   \<not> (0xD800 \<le> a * 0x1000 + m1 * 0x40 + m2 \<and> a * 0x1000 + m1 * 0x40 + m2 \<le> 0xDFFF) \<Longrightarrow>
   decode_utf8 (Octet (0xE0 + a) # Octet (0x80 + m1) # Octet (0x80 + m2) # ts)
     = map_option ((@) (utf16 (a * 0x1000 + m1 * 0x40 + m2))) (decode_utf8 ts)"
  by (simp add: continuation_def Let_def)

lemma decode_four_octets:
  "a < 8 \<Longrightarrow> m1 < 0x40 \<Longrightarrow> m2 < 0x40 \<Longrightarrow> m3 < 0x40 \<Longrightarrow>
   0x10000 \<le> a * 0x40000 + m1 * 0x1000 + m2 * 0x40 + m3 \<Longrightarrow>
   a * 0x40000 + m1 * 0x1000 + m2 * 0x40 + m3 \<le> 0x10FFFF \<Longrightarrow>
   decode_utf8 (Octet (0xF0 + a) # Octet (0x80 + m1) # Octet (0x80 + m2) # Octet (0x80 + m3) # ts)
     = map_option ((@) (utf16 (a * 0x40000 + m1 * 0x1000 + m2 * 0x40 + m3))) (decode_utf8 ts)"
  by (simp add: continuation_def Let_def)


lemma decode_utf8_utf8:
  assumes "cp \<le> 0x10FFFF" and "\<not> (0xD800 \<le> cp \<and> cp \<le> 0xDFFF)"
  shows "decode_utf8 (map Octet (utf8 cp) @ ts) = map_option ((@) (utf16 cp)) (decode_utf8 ts)"
proof -
  consider (one) "cp < 0x80" | (two) "0x80 \<le> cp" "cp < 0x800"
    | (three) "0x800 \<le> cp" "cp < 0x10000" | (four) "0x10000 \<le> cp"
    by linarith
  then show ?thesis
  proof cases
    case one
    then have "utf8 cp = [cp]" by (simp add: utf8_def)
    with decode_one_octet [OF one] show ?thesis by simp
  next
    case two
    then have u: "utf8 cp = [0xC0 + cp div 0x40, 0x80 + cp mod 0x40]" by (simp add: utf8_def)
    have r: "cp div 0x40 * 0x40 + cp mod 0x40 = cp" by simp
    from two have a: "cp div 0x40 < 0x20" by simp
    have m: "cp mod 0x40 < 0x40" by simp
    from two have g: "0x80 \<le> cp div 0x40 * 0x40 + cp mod 0x40" by (simp only: r)
    from decode_two_octets [OF a m g, of ts] show ?thesis by (simp only: u r list.map append.simps)
  next
    case three
    then have u: "utf8 cp = [0xE0 + cp div 0x1000, 0x80 + cp div 0x40 mod 0x40, 0x80 + cp mod 0x40]"
      by (simp add: utf8_def)
    note r = recombine_three [of cp]
    from three have a: "cp div 0x1000 < 0x10" by simp
    have m: "cp div 0x40 mod 0x40 < 0x40" "cp mod 0x40 < 0x40" by simp_all
    from three have g: "0x800 \<le> cp div 0x1000 * 0x1000 + cp div 0x40 mod 0x40 * 0x40 + cp mod 0x40"
      by (simp only: r)
    have n: "\<not> (0xD800 \<le> cp div 0x1000 * 0x1000 + cp div 0x40 mod 0x40 * 0x40 + cp mod 0x40
        \<and> cp div 0x1000 * 0x1000 + cp div 0x40 mod 0x40 * 0x40 + cp mod 0x40 \<le> 0xDFFF)"
      unfolding r by (rule assms(2))
    from decode_three_octets [OF a m g n, of ts] show ?thesis by (simp only: u r list.map append.simps)
  next
    case four
    then have u: "utf8 cp = [0xF0 + cp div 0x40000, 0x80 + cp div 0x1000 mod 0x40,
            0x80 + cp div 0x40 mod 0x40, 0x80 + cp mod 0x40]"
      by (simp add: utf8_def)
    note r = recombine_four [of cp]
    from assms(1) have a: "cp div 0x40000 < 8" by simp
    have m: "cp div 0x1000 mod 0x40 < 0x40" "cp div 0x40 mod 0x40 < 0x40" "cp mod 0x40 < 0x40"
      by simp_all
    from four have g: "0x10000 \<le> cp div 0x40000 * 0x40000 + cp div 0x1000 mod 0x40 * 0x1000
             + cp div 0x40 mod 0x40 * 0x40 + cp mod 0x40" by (simp only: r)
    from assms(1) have h: "cp div 0x40000 * 0x40000 + cp div 0x1000 mod 0x40 * 0x1000
             + cp div 0x40 mod 0x40 * 0x40 + cp mod 0x40 \<le> 0x10FFFF" by (simp only: r)
    from decode_four_octets [OF a m g h, of ts] show ?thesis by (simp only: u r list.map append.simps)
  qed
qed


lemma unescaped_not_percent: "uriUnescaped c \<Longrightarrow> c \<noteq> 0x25"
  by (auto simp add: uriUnescaped_def)

lemma not_surrogate_nat:
  "\<not> isLeadSurrogate c \<Longrightarrow> \<not> isTrailSurrogate c \<Longrightarrow> \<not> (0xD800 \<le> unat c \<and> unat c \<le> 0xDFFF)"
  by (auto simp add: isLeadSurrogate_def isTrailSurrogate_def word_le_nat_alt)

lemma unescape_escape_utf8:
  assumes "cp \<le> 0x10FFFF" and "unescape rest = Some ts"
  shows "unescape (escape (utf8 cp) @ rest) = Some (map Octet (utf8 cp) @ ts)"
proof -
  from assms(1) have "\<forall>b \<in> set (utf8 cp). b < 256" by (intro utf8_octets) simp
  from unescape_escape [OF this, of rest] assms(2) show ?thesis by simp
qed

lemma encode_tokens:
  "encodeURIComponent s = Some e \<Longrightarrow> \<exists>ts. unescape e = Some ts \<and> decode_utf8 ts = Some s"
proof (induction s arbitrary: e rule: encodeURIComponent.induct)
  case 1
  then show ?case by simp
next
  case (2 c cs)
  show ?case
  proof (cases "uriUnescaped c")
    case True
    with "2.prems" obtain e' where e': "encodeURIComponent cs = Some e'" "e = c # e'" by auto
    from "2.IH"(1) [OF True e'(1)] obtain ts where ts: "unescape e' = Some ts" "decode_utf8 ts = Some cs"
      by blast
    from ts e'(2) unescaped_not_percent [OF True]
    have "unescape e = Some (Unit c # ts)" "decode_utf8 (Unit c # ts) = Some (c # cs)" by simp_all
    then show ?thesis by blast
  next
    case False
    show ?thesis
    proof (cases "isLeadSurrogate c")
      case lead: True
      with False "2.prems" obtain d ds e' where d: "cs = d # ds" "isTrailSurrogate d"
        "encodeURIComponent ds = Some e'" "e = escape (utf8 (pairCodePoint c d)) @ e'"
        by (auto split: list.splits if_splits)
      from "2.IH"(2) [OF False lead d(1) d(2) d(3)]
      obtain ts where ts: "unescape e' = Some ts" "decode_utf8 ts = Some ds" by blast
      let ?cp = "pairCodePoint c d"
      from pair_range [OF lead d(2)] have r: "?cp \<le> 0x10FFFF" "\<not> (0xD800 \<le> ?cp \<and> ?cp \<le> 0xDFFF)"
        by simp_all
      have u: "unescape e = Some (map Octet (utf8 ?cp) @ ts)"
        unfolding d(4) by (rule unescape_escape_utf8 [OF r(1) ts(1)])
      have "decode_utf8 (map Octet (utf8 ?cp) @ ts) = Some (utf16 ?cp @ ds)"
        by (simp add: decode_utf8_utf8 [OF r] ts(2))
      then have "decode_utf8 (map Octet (utf8 ?cp) @ ts) = Some (c # cs)"
        by (simp add: utf16_pair [OF lead d(2)] d(1))
      with u show ?thesis by blast
    next
      case nolead: False
      with False "2.prems" have notrail: "\<not> isTrailSurrogate c" by (auto split: if_splits)
      with False nolead "2.prems" obtain e' where e': "encodeURIComponent cs = Some e'"
        "e = escape (utf8 (unat c)) @ e'" by auto
      from "2.IH"(3) [OF False nolead notrail e'(1)]
      obtain ts where ts: "unescape e' = Some ts" "decode_utf8 ts = Some cs" by blast
      have "unat c < 0x10000" using unsigned_less [of c, where ?'a = nat] by simp
      then have r: "unat c \<le> 0x10FFFF" by simp
      note n = not_surrogate_nat [OF nolead notrail]
      have u: "unescape e = Some (map Octet (utf8 (unat c)) @ ts)"
        unfolding e'(2) by (rule unescape_escape_utf8 [OF r ts(1)])
      have "decode_utf8 (map Octet (utf8 (unat c)) @ ts) = Some (utf16 (unat c) @ cs)"
        by (simp add: decode_utf8_utf8 [OF r n] ts(2))
      then have "decode_utf8 (map Octet (utf8 (unat c)) @ ts) = Some (c # cs)"
        by (simp add: utf16_bmp)
      with u show ?thesis by blast
    qed
  qed
qed

lemma decode_encode:
  "encodeURIComponent s = Some e \<Longrightarrow> decodeURIComponent e = Some s"
proof -
  assume "encodeURIComponent s = Some e"
  from encode_tokens [OF this] obtain ts where "unescape e = Some ts" "decode_utf8 ts = Some s"
    by blast
  then show ?thesis by (simp add: decodeURIComponent_def)
qed

subsection \<open>The copy button\<close>

lemma run_resets_append:
  "run_resets t (xs @ [(due, original)]) label
     = (if due \<le> t then original else run_resets t xs label)"
  by (induction xs arbitrary: label) auto

lemma queue_in_order_kept:
  "queue_in_order fresh_panel"
  "queue_in_order p \<Longrightarrow> copy_click text outcome p = Inr p' \<Longrightarrow> queue_in_order p'"
  "queue_in_order p \<Longrightarrow> queue_in_order (panel_advance d p)"
proof -
  show "queue_in_order fresh_panel" by (simp add: queue_in_order_def fresh_panel_def)
  show "queue_in_order p'" if "queue_in_order p" "copy_click text outcome p = Inr p'"
    using that
    by (cases outcome)
       (force simp add: queue_in_order_def copy_click_def Let_def sorted_append list_all_iff)+
  show "queue_in_order (panel_advance d p)" if "queue_in_order p"
  proof -
    from that have s: "sorted (map fst (reset_due p))"
      and b: "\<forall>x \<in> set (reset_due p). fst x \<le> panel_clock p + 2000"
      by (simp_all add: queue_in_order_def list_all_iff)
    have "map fst (filter (\<lambda>(due, original). \<not> due \<le> panel_clock p + d) (reset_due p))
            = filter (\<lambda>due. \<not> due \<le> panel_clock p + d) (map fst (reset_due p))"
      by (simp add: filter_map comp_def split_def)
    with s have "sorted (map fst (filter (\<lambda>(due, original). \<not> due \<le> panel_clock p + d)
                    (reset_due p)))"
      by (simp add: sorted_wrt_filter)
    with b show ?thesis
      by (force simp add: queue_in_order_def panel_advance_def Let_def list_all_iff)
  qed
qed

text \<open>
  One click on the copy button, taken alone. When the clipboard write is fulfilled, the
  label of the button becomes "Copied!" and, 2000 ms later or more, it is the text that
  the handler read into \<open>originalText\<close>: the label at the moment of this click, whatever
  that was. With no earlier reset pending it stays "Copied!" until then. When the write is
  rejected, the error is passed to \<open>console.error\<close> after "Failed to copy: ", the copy box
  gets the focus and its content is selected; the label stays as it was.
\<close>

lemma single_click_feedback:
  "(\<exists>p'. copy_click text Fulfilled p = Inr p'
         \<and> clipboard p' = Some text
         \<and> copyBtn_textContent p' = js ''Copied!''
         \<and> (\<forall>d. 2000 \<le> d \<longrightarrow>
                copyBtn_textContent (panel_advance d p') = copyBtn_textContent p)
         \<and> (\<forall>d. d < 2000 \<and> reset_due p = [] \<longrightarrow>
                copyBtn_textContent (panel_advance d p') = js ''Copied!''))
   \<and> (\<exists>p'. copy_click text (Rejected err) p = Inr p'
         \<and> console_error p' = console_error p @ [(js ''Failed to copy: '', err)]
         \<and> copyBox_focused p' \<and> selectAll_done p'
         \<and> copyBtn_textContent p' = copyBtn_textContent p
         \<and> reset_due p' = reset_due p
         \<and> clipboard p' = clipboard p)"
proof -
  let ?p' = "p\<lparr>clipboard := Some text, copyBtn_textContent := js ''Copied!'',
               reset_due := reset_due p @ [(panel_clock p + 2000, copyBtn_textContent p)]\<rparr>"
  have ok: "copy_click text Fulfilled p = Inr ?p'"
    by (simp add: copy_click_def Let_def)
  have later: "copyBtn_textContent (panel_advance d ?p') = copyBtn_textContent p"
    if "2000 \<le> d" for d
    using that by (simp add: panel_advance_def Let_def run_resets_append)
  have sooner: "copyBtn_textContent (panel_advance d ?p') = js ''Copied!''"
    if "d < 2000" "reset_due p = []" for d
    using that by (simp add: panel_advance_def Let_def)
  have good: "\<exists>p'. copy_click text Fulfilled p = Inr p'
         \<and> clipboard p' = Some text
         \<and> copyBtn_textContent p' = js ''Copied!''
         \<and> (\<forall>d. 2000 \<le> d \<longrightarrow>
                copyBtn_textContent (panel_advance d p') = copyBtn_textContent p)
         \<and> (\<forall>d. d < 2000 \<and> reset_due p = [] \<longrightarrow>
                copyBtn_textContent (panel_advance d p') = js ''Copied!'')"
  proof (intro exI conjI allI impI)
    show "copy_click text Fulfilled p = Inr ?p'" by (rule ok)
    show "clipboard ?p' = Some text" by simp
    show "copyBtn_textContent ?p' = js ''Copied!''" by simp
    show "copyBtn_textContent (panel_advance d ?p') = copyBtn_textContent p" if "2000 \<le> d" for d
      using that by (rule later)
    show "copyBtn_textContent (panel_advance d ?p') = js ''Copied!''"
      if "d < 2000 \<and> reset_due p = []" for d
      using that sooner by blast
  qed
  have bad: "\<exists>p'. copy_click text (Rejected err) p = Inr p'
         \<and> console_error p' = console_error p @ [(js ''Failed to copy: '', err)]
         \<and> copyBox_focused p' \<and> selectAll_done p'
         \<and> copyBtn_textContent p' = copyBtn_textContent p
         \<and> reset_due p' = reset_due p
         \<and> clipboard p' = clipboard p"
    by (simp add: copy_click_def)
  from good bad show ?thesis by (rule conjI)
qed

lemma single_click_feedback_example:
  "(case copy_click (js ''Name: Jane'') Fulfilled fresh_panel of
      Inl e \<Rightarrow> None
    | Inr p \<Rightarrow> Some (clipboard p, copyBtn_textContent p,
                    copyBtn_textContent (panel_advance 1999 p),
                    copyBtn_textContent (panel_advance 2000 p)))
     = Some (Some (js ''Name: Jane''), js ''Copied!'', js ''Copied!'', js ''Copy to Clipboard'')
   \<and> (case copy_click (js ''Name: Jane'') (Rejected (js ''NotAllowedError'')) fresh_panel of
      Inl e \<Rightarrow> None
    | Inr p \<Rightarrow> Some (console_error p, copyBox_focused p, selectAll_done p,
                    copyBtn_textContent p))
     = Some ([(js ''Failed to copy: '', js ''NotAllowedError'')], True, True,
             js ''Copy to Clipboard'')"
proof -
  note r = single_click_feedback [of "js ''Name: Jane''" fresh_panel "js ''NotAllowedError''"]
  have e: "reset_due fresh_panel = []" "console_error fresh_panel = []"
    "copyBtn_textContent fresh_panel = js ''Copy to Clipboard''"
    by (simp_all add: fresh_panel_def)
  from r obtain p1 where p1: "copy_click (js ''Name: Jane'') Fulfilled fresh_panel = Inr p1"
    "clipboard p1 = Some (js ''Name: Jane'')" "copyBtn_textContent p1 = js ''Copied!''"
    "\<forall>d. 2000 \<le> d \<longrightarrow>
        copyBtn_textContent (panel_advance d p1) = copyBtn_textContent fresh_panel"
    "\<forall>d. d < 2000 \<and> reset_due fresh_panel = [] \<longrightarrow>
        copyBtn_textContent (panel_advance d p1) = js ''Copied!''"
    by blast
  from p1(4) have a: "copyBtn_textContent (panel_advance 2000 p1) = js ''Copy to Clipboard''"
    by (simp add: e)
  from p1(5) e(1) have b: "copyBtn_textContent (panel_advance 1999 p1) = js ''Copied!''"
    by simp
  from r obtain p2 where p2:
    "copy_click (js ''Name: Jane'') (Rejected (js ''NotAllowedError'')) fresh_panel = Inr p2"
    "console_error p2 = console_error fresh_panel @ [(js ''Failed to copy: '', js ''NotAllowedError'')]"
    "copyBox_focused p2" "selectAll_done p2"
    "copyBtn_textContent p2 = copyBtn_textContent fresh_panel"
    by blast
  from p1(1,2,3) a b p2 e show ?thesis by simp
qed

text \<open>A click while the button says "Copied!" reads that label as the text to go back to:
  from then on no reset of this click brings another label.\<close>

lemma click_while_Copied_never_reverts:
  assumes "copyBtn_textContent p = js ''Copied!''"
  shows "\<exists>p'. copy_click text Fulfilled p = Inr p'
           \<and> (\<forall>d. 2000 \<le> d \<longrightarrow> copyBtn_textContent (panel_advance d p') = js ''Copied!'')"
proof -
  from single_click_feedback [of _ p]
  obtain p' where p': "copy_click text Fulfilled p = Inr p'"
    "\<forall>d. 2000 \<le> d \<longrightarrow>
        copyBtn_textContent (panel_advance d p') = copyBtn_textContent p"
    by blast
  from p'(2) assms
  have "\<forall>d. 2000 \<le> d \<longrightarrow> copyBtn_textContent (panel_advance d p') = js ''Copied!''"
    by simp
  with p'(1) show ?thesis by blast
qed

text \<open>
  C8. The copy button of a new panel, labelled "Copy to Clipboard", is clicked twice,
  1000 ms apart, and both clipboard writes are fulfilled. 1000 ms after the second click
  the reset of the first click has put the original label back; 2000 ms after the second
  click, and for good, the button says "Copied!": the second click does not revert to the
  original text. And where \<open>navigator.clipboard\<close> is undefined the write fails with a
  \<open>TypeError\<close> thrown in the handler: nothing is logged and nothing is selected.
\<close>

theorem second_click_keeps_Copied:
  "(case copy_click (js ''Name: Jane'') Fulfilled fresh_panel of
      Inl e \<Rightarrow> None
    | Inr p1 \<Rightarrow>
        (case copy_click (js ''Name: Jane'') Fulfilled (panel_advance 1000 p1) of
           Inl e \<Rightarrow> None
         | Inr p2 \<Rightarrow> Some (copyBtn_textContent p2,
                          copyBtn_textContent (panel_advance 1000 p2),
                          copyBtn_textContent (panel_advance 2000 p2),
                          copyBtn_textContent (panel_advance 5000 p2))))
     = Some (js ''Copied!'', js ''Copy to Clipboard'', js ''Copied!'', js ''Copied!'')
   \<and> copy_click (js ''Name: Jane'') Unavailable fresh_panel = Inl TypeError"
proof -
  have a: "(case copy_click (js ''Name: Jane'') Fulfilled fresh_panel of
      Inl e \<Rightarrow> None
    | Inr p1 \<Rightarrow>
        (case copy_click (js ''Name: Jane'') Fulfilled (panel_advance 1000 p1) of
           Inl e \<Rightarrow> None
         | Inr p2 \<Rightarrow> Some (copyBtn_textContent p2,
                          copyBtn_textContent (panel_advance 1000 p2),
                          copyBtn_textContent (panel_advance 2000 p2),
                          copyBtn_textContent (panel_advance 5000 p2))))
     = Some (js ''Copied!'', js ''Copy to Clipboard'', js ''Copied!'', js ''Copied!'')"
    by code_simp
  have b: "copy_click (js ''Name: Jane'') Unavailable fresh_panel = Inl TypeError"
    by (simp add: copy_click_def)
  from a b show ?thesis by (rule conjI)
qed

subsection \<open>The copy box of the fallback panel\<close>

lemma fvalue_showError: "fvalue (showError f m) = fvalue f"
  by (simp add: showError_def Let_def)

lemma fvalue_validateField: "fvalue (snd (validateField f ru)) = fvalue f"
  by (simp add: validateField_def Let_def fvalue_showError)

lemma fvalue_validate_all:
  "fvalue (controls (snd (validate_all rs b f)) r) = fvalue (controls f r)"
proof (induction rs arbitrary: b f)
  case Nil
  then show ?case by simp
next
  case (Cons p rs)
  obtain r' ru where p: "p = (r', ru)" by (cases p)
  show ?case
    unfolding p
    by (simp add: validate_ref_def split_beta Cons.IH fvalue_validateField)
qed

lemma fvalue_submit: "fvalue (controls (submit rs f) r) = fvalue (controls f r)"
  using fvalue_validate_all [of rs True f r]
  by (simp add: submit_def split_beta Let_def split: option.splits)

lemma createFallbackUI_encoded:
  assumes "encodeURIComponent text = Some body"
  shows "\<exists>panel. createFallbackUI recipient subject body = Inr panel
           \<and> copyBox_innerHTML panel = replace_newlines text"
  by (simp add: createFallbackUI_def Let_def decode_encode [OF assms])

text \<open>Whenever a submission of the contact form gets as far as the panel, the markup of
  the copy box is the composed text with every line feed replaced by \<open><br>\<close>, and nothing
  else changed: what the user typed is passed to \<open>innerHTML\<close> as it is.\<close>

lemma contact_copy_box_markup:
  assumes "contact_copy_box n e m = Some h"
  shows "h = replace_newlines (contact_body_text n e m)"
proof -
  let ?f1 = "contact_submit (contact_form_with n e m)"
  from assms obtain due orig rest where pd: "processing_due ?f1 = (due, orig) # rest"
    by (auto simp add: contact_copy_box_def Let_def split: list.splits)
  let ?f2 = "?f1\<lparr>clock := due, processing_due := rest\<rparr>"
  have v: "fvalue (controls ?f1 CName) = n" "fvalue (controls ?f1 CEmail) = e"
    "fvalue (controls ?f1 CMessage) = m"
    by (simp_all add: contact_submit_def fvalue_submit contact_form_with_def fresh_field_def)
  from assms pd obtain f3 where f3: "contact_process orig ?f2 = Inr f3"
    "map_option copyBox_innerHTML (email_fallback f3) = Some h"
    by (auto simp add: contact_copy_box_def Let_def split: sum.splits)
  from f3(1) obtain subject body where sb:
    "encodeURIComponent (js ''Contact Form Submission: '' @ n) = Some subject"
    "encodeURIComponent (contact_body_text n e m) = Some body"
    by (auto simp add: contact_process_def v Let_def split: option.splits)
  from createFallbackUI_encoded [OF sb(2)]
  obtain panel where panel:
    "createFallbackUI (js ''reshineinternational@gmail.com'') subject body = Inr panel"
    "copyBox_innerHTML panel = replace_newlines (contact_body_text n e m)"
    by blast
  from f3(1) sb panel(1) have "email_fallback f3 = Some panel"
    by (auto simp add: contact_process_def v Let_def)
  with f3(2) panel(2) show ?thesis by simp
qed

text \<open>
  C4. The contact form is submitted twice, with the same name and email, once with the
  message "Hello<br>World" typed as these fourteen characters and once with "Hello", a
  line feed, "World". Both submissions reach the fallback panel, and the copy box gets the
  same markup in both: no reading of the copy box gives back both messages.
\<close>

theorem copy_box_same_for_br_and_newline:
  "contact_copy_box (js ''Jane'') (js ''jane@x.com'') (js ''Hello<br>World'')
     = Some (js ''Name: Jane<br>Email: jane@x.com<br><br>Message:<br>Hello<br>World'')
   \<and> contact_copy_box (js ''Jane'') (js ''jane@x.com'') (js ''Hello'' @ [0x0A] @ js ''World'')
     = Some (js ''Name: Jane<br>Email: jane@x.com<br><br>Message:<br>Hello<br>World'')
   \<and> js ''Hello<br>World'' \<noteq> js ''Hello'' @ [0x0A] @ js ''World''"
proof -
  have a: "contact_copy_box (js ''Jane'') (js ''jane@x.com'') (js ''Hello<br>World'')
     = Some (js ''Name: Jane<br>Email: jane@x.com<br><br>Message:<br>Hello<br>World'')"
    by code_simp
  have b: "contact_copy_box (js ''Jane'') (js ''jane@x.com'') (js ''Hello'' @ [0x0A] @ js ''World'')
     = Some (js ''Name: Jane<br>Email: jane@x.com<br><br>Message:<br>Hello<br>World'')"
    by code_simp
  have c: "js ''Hello<br>World'' \<noteq> js ''Hello'' @ [0x0A] @ js ''World''"
    by (simp add: js_def)
  from a b c show ?thesis by (intro conjI)
qed

subsection \<open>The quote form\<close>

lemma quote_body_text_eq:
  "quote_body_text ty po na ph em de
     = verbatim_quote_body ty po na ph em (if de = [] then js ''N/A'' else de)"
  by (simp add: quote_body_text_def verbatim_quote_body_def)

text \<open>
  C10. The body that the quote form composes is the text with every entry verbatim (the
  selected texts of the two selects, the name, the phone number and the email) except for
  the last line, which is "N/A" when the details are empty and the details otherwise. With
  empty details it therefore differs from the text that has every entry verbatim. When the
  callback of the form completes, it is this text that is encoded into the \<open>mailto:\<close> URL
  and that, with its line feeds replaced, is written into the copy box.
\<close>

theorem quote_body_says_NA_for_empty_details:
  "quote_body_text ty po na ph em de
     = verbatim_quote_body ty po na ph em (if de = [] then js ''N/A'' else de)
   \<and> quote_body_text ty po na ph em [] \<noteq> verbatim_quote_body ty po na ph em []
   \<and> (quote_process orig f = Inr f' \<longrightarrow>
        (\<exists>ty po d subject body.
           selectedText (controls f QType) = Some ty
         \<and> selectedText (controls f QPort) = Some po
         \<and> details f = Some d
         \<and> encodeURIComponent
               (verbatim_quote_body ty po (fvalue (controls f QName))
                  (fvalue (controls f QPhone)) (fvalue (controls f QEmail))
                  (if fvalue d = [] then js ''N/A'' else fvalue d)) = Some body
         \<and> location_href f'
               = Some (js ''mailto:'' @ js ''reshineinternational@gmail.com''
                       @ js ''?subject='' @ subject @ js ''&body='' @ body)
         \<and> map_option copyBox_innerHTML (email_fallback f')
               = Some (replace_newlines
                   (verbatim_quote_body ty po (fvalue (controls f QName))
                      (fvalue (controls f QPhone)) (fvalue (controls f QEmail))
                      (if fvalue d = [] then js ''N/A'' else fvalue d)))))"
proof -
  have a: "quote_body_text ty po na ph em de
     = verbatim_quote_body ty po na ph em (if de = [] then js ''N/A'' else de)"
    by (rule quote_body_text_eq)
  have b: "quote_body_text ty po na ph em [] \<noteq> verbatim_quote_body ty po na ph em []"
    by (simp add: quote_body_text_def verbatim_quote_body_def js_def)
  have c: "\<exists>ty po d subject body.
           selectedText (controls f QType) = Some ty
         \<and> selectedText (controls f QPort) = Some po
         \<and> details f = Some d
         \<and> encodeURIComponent
               (verbatim_quote_body ty po (fvalue (controls f QName))
                  (fvalue (controls f QPhone)) (fvalue (controls f QEmail))
                  (if fvalue d = [] then js ''N/A'' else fvalue d)) = Some body
         \<and> location_href f'
               = Some (js ''mailto:'' @ js ''reshineinternational@gmail.com''
                       @ js ''?subject='' @ subject @ js ''&body='' @ body)
         \<and> map_option copyBox_innerHTML (email_fallback f')
               = Some (replace_newlines
                   (verbatim_quote_body ty po (fvalue (controls f QName))
                      (fvalue (controls f QPhone)) (fvalue (controls f QEmail))
                      (if fvalue d = [] then js ''N/A'' else fvalue d)))"
    if run: "quote_process orig f = Inr f'"
  proof -
    from run obtain ty where ty: "selectedText (controls f QType) = Some ty"
      by (auto simp add: quote_process_def Let_def split: option.splits)
    from run ty obtain subject where su:
      "encodeURIComponent (js ''Quote Request: '' @ ty) = Some subject"
      by (auto simp add: quote_process_def Let_def split: option.splits)
    from run ty su obtain po where po: "selectedText (controls f QPort) = Some po"
      by (auto simp add: quote_process_def Let_def split: option.splits)
    from run ty su po obtain d where d: "details f = Some d"
      by (auto simp add: quote_process_def Let_def split: option.splits)
    let ?text = "quote_body_text ty po (fvalue (controls f QName))
                  (fvalue (controls f QPhone)) (fvalue (controls f QEmail)) (fvalue d)"
    from run ty su po d obtain body where bo: "encodeURIComponent ?text = Some body"
      by (auto simp add: quote_process_def Let_def split: option.splits)
    from createFallbackUI_encoded [OF bo]
    obtain panel where panel:
      "createFallbackUI (js ''reshineinternational@gmail.com'') subject body = Inr panel"
      "copyBox_innerHTML panel = replace_newlines ?text"
      by blast
    from run ty su po d bo panel(1)
    have r: "location_href f' = Some (js ''mailto:'' @ js ''reshineinternational@gmail.com''
                       @ js ''?subject='' @ subject @ js ''&body='' @ body)"
      "email_fallback f' = Some panel"
      by (auto simp add: quote_process_def Let_def)
    from ty po d bo r panel(2) show ?thesis
      by (simp only: quote_body_text_eq) auto
  qed
  from a b c show ?thesis by blast
qed


theorem quote_body_says_NA_for_empty_details_witness:
  "quote_copy_box (quote_form_with (Some (fresh_field ''quote-details'' [])))
     = Some (js ''Service Type: Sea Freight<br>Port/Location: Mundra Port<br><br>Name: Jane<br>Phone: 12345<br>Email: jane@x.com<br><br>Additional Details:<br>N/A'')
   \<and> quote_copy_box (quote_form_with (Some (fresh_field ''quote-details'' (js ''N/A''))))
     = Some (js ''Service Type: Sea Freight<br>Port/Location: Mundra Port<br><br>Name: Jane<br>Phone: 12345<br>Email: jane@x.com<br><br>Additional Details:<br>N/A'')"
proof -
  let ?f = "quote_form_with (Some (fresh_field ''quote-details'' []))"
  have o: "btn_textContent (submitBtn ?f) = js ''Get Quote''"
    by (simp add: quote_form_with_def)
  have "case quote_process (js ''Get Quote'') ?f of Inl e \<Rightarrow> False | Inr f' \<Rightarrow> True"
    by code_simp
  then obtain f' where run: "quote_process (js ''Get Quote'') ?f = Inr f'"
    by (cases "quote_process (js ''Get Quote'') ?f") simp_all
  have s: "selectedText (controls ?f QType) = Some (js ''Sea Freight'')"
    "selectedText (controls ?f QPort) = Some (js ''Mundra Port'')"
    "details ?f = Some (fresh_field ''quote-details'' [])"
    by (simp_all add: quote_form_with_def fresh_select_def fresh_field_def)
  from quote_body_says_NA_for_empty_details [of _ _ _ _ _ _ "js ''Get Quote''" ?f f'] run
  obtain ty po d where t: "selectedText (controls ?f QType) = Some ty"
    "selectedText (controls ?f QPort) = Some po" "details ?f = Some d"
    "map_option copyBox_innerHTML (email_fallback f')
       = Some (replace_newlines
           (verbatim_quote_body ty po (fvalue (controls ?f QName))
              (fvalue (controls ?f QPhone)) (fvalue (controls ?f QEmail))
              (if fvalue d = [] then js ''N/A'' else fvalue d)))"
    by blast
  from t(1,2,3) s have e: "ty = js ''Sea Freight''" "po = js ''Mundra Port''"
    "d = fresh_field ''quote-details'' []" by simp_all
  have v: "replace_newlines
           (verbatim_quote_body (js ''Sea Freight'') (js ''Mundra Port'')
              (fvalue (controls ?f QName)) (fvalue (controls ?f QPhone))
              (fvalue (controls ?f QEmail))
              (if fvalue (fresh_field ''quote-details'' []) = [] then js ''N/A''
               else fvalue (fresh_field ''quote-details'' [])))
     = js ''Service Type: Sea Freight<br>Port/Location: Mundra Port<br><br>Name: Jane<br>Phone: 12345<br>Email: jane@x.com<br><br>Additional Details:<br>N/A''"
    by code_simp
  from t(4) have "map_option copyBox_innerHTML (email_fallback f')
     = Some (js ''Service Type: Sea Freight<br>Port/Location: Mundra Port<br><br>Name: Jane<br>Phone: 12345<br>Email: jane@x.com<br><br>Additional Details:<br>N/A'')"
    unfolding e by (simp only: v)
  then have a: "quote_copy_box ?f
     = Some (js ''Service Type: Sea Freight<br>Port/Location: Mundra Port<br><br>Name: Jane<br>Phone: 12345<br>Email: jane@x.com<br><br>Additional Details:<br>N/A'')"
    by (simp add: quote_copy_box_def o run)
  have b: "quote_copy_box (quote_form_with (Some (fresh_field ''quote-details'' (js ''N/A''))))
     = Some (js ''Service Type: Sea Freight<br>Port/Location: Mundra Port<br><br>Name: Jane<br>Phone: 12345<br>Email: jane@x.com<br><br>Additional Details:<br>N/A'')"
    by code_simp
  from a b show ?thesis by (rule conjI)
qed

subsection \<open>Initialisation\<close>

text \<open>Each \<open>init\<close> returns without installing anything when an element that its guard
  names is missing.\<close>

lemma init_skips_when_a_guarded_element_is_missing:
  "(track_children cd = None \<or> track_children cd = Some 0 \<or> \<not> has_prev cd \<or> \<not> has_next cd
      \<longrightarrow> Carousel_init cd = None)
   \<and> (\<not> has_contact_form cp \<or> page_name cp = None \<or> page_email cp = None
        \<or> page_message cp = None \<or> page_submitBtn cp = None \<or> page_success cp = None
      \<longrightarrow> initContactForm cp = None)
   \<and> (\<not> has_quote_form qp \<or> page_qtype qp = None \<or> page_qport qp = None
        \<or> page_qname qp = None \<or> page_qphone qp = None \<or> page_qemail qp = None
        \<or> page_qsubmitBtn qp = None
      \<longrightarrow> initQuickQuoteForm qp = None)"
  by (auto simp add: Carousel_init_def initContactForm_def initQuickQuoteForm_def
      split: option.splits)

text \<open>
  C7. The quote page with every element but \<open>quote-details\<close>: \<open>initQuickQuoteForm\<close> does
  not return early but installs the form; a submission with valid entries enters
  Processing, and the callback then throws a \<open>TypeError\<close> at \<open>details.value\<close>.
\<close>

theorem quote_init_installs_without_details:
  "initQuickQuoteForm (quote_page_with None) = Some (quote_form_with None)
   \<and> all_valid quote_rules (quote_form_with None)
   \<and> processing_due (quote_submit (quote_form_with None)) = [(800, js ''Get Quote'')]
   \<and> quote_process (js ''Get Quote'') (quote_submit (quote_form_with None)) = Inl TypeError"
proof -
  have a: "initQuickQuoteForm (quote_page_with None) = Some (quote_form_with None)"
    by (simp add: initQuickQuoteForm_def quote_page_with_def quote_form_with_def)
  have b: "all_valid quote_rules (quote_form_with None)" by code_simp
  have c: "processing_due (quote_submit (quote_form_with None)) = [(800, js ''Get Quote'')]"
    by code_simp
  have d1: "selectedText (controls (quote_submit (quote_form_with None)) QType)
              = Some (js ''Sea Freight'')"
    "selectedText (controls (quote_submit (quote_form_with None)) QPort)
              = Some (js ''Mundra Port'')"
    "encodeURIComponent (js ''Quote Request: '' @ js ''Sea Freight'')
              = Some (js ''Quote%20Request%3A%20Sea%20Freight'')"
    "details (quote_submit (quote_form_with None)) = None"
    by code_simp+
  have d: "quote_process (js ''Get Quote'') (quote_submit (quote_form_with None)) = Inl TypeError"
    by (simp add: quote_process_def d1)
  from a b c d show ?thesis by (intro conjI)
qed

end
